theory Spec2Isabelle
  imports Main "HOL-Library.Word" "HOL-Library.Sublist"
begin

section \<open>JavaScript values used by the server\<close>

text \<open>
  A JavaScript string is a sequence of UTF-16 code units; \<open>length\<close>, \<open>trim\<close> and
  concatenation work on code units.  \<open>js\<close> embeds an ASCII literal of the source.
\<close>

type_synonym jsstring = "16 word list"

definition js :: "string \<Rightarrow> jsstring" where
  "js s = map (\<lambda>c. of_nat (of_char c)) s"

text \<open>
  \<open>String.prototype.trim\<close> removes WhiteSpace and LineTerminator code points from both
  ends: TAB, LF, VT, FF, CR, SP, NBSP, the Unicode space separators, LS, PS and the BOM.
\<close>

definition is_js_space :: "16 word \<Rightarrow> bool" where
  "is_js_space c \<longleftrightarrow>
     c \<in> {0x9, 0xA, 0xB, 0xC, 0xD, 0x20, 0xA0, 0x1680, 0x2028, 0x2029, 0x202F, 0x205F,
          0x3000, 0xFEFF}
     \<or> (0x2000 \<le> c \<and> c \<le> 0x200A)"

definition trim :: "jsstring \<Rightarrow> jsstring" where
  "trim s = rev (dropWhile is_js_space (rev (dropWhile is_js_space s)))"

text \<open>A string is truthy when it is not empty; \<open>undefined\<close> is falsy.\<close>

definition truthy :: "jsstring \<Rightarrow> bool" where
  "truthy s \<longleftrightarrow> s \<noteq> []"

definition truthy_opt :: "jsstring option \<Rightarrow> bool" where
  "truthy_opt v = (case v of None \<Rightarrow> False | Some s \<Rightarrow> truthy s)"

text \<open>The decimal text that a template literal gives an integer exit code.\<close>

fun dec_nat :: "nat \<Rightarrow> jsstring" where
  "dec_nat n =
     (if n < 10 then [of_nat (48 + n)] else dec_nat (n div 10) @ [of_nat (48 + n mod 10)])"

declare dec_nat.simps [simp del]

definition dec_int :: "int \<Rightarrow> jsstring" where
  "dec_int i = (if i < 0 then js ''-'' @ dec_nat (nat (- i)) else dec_nat (nat i))"

text \<open>
  A thrown value.  The handlers are typed \<open>catch (err: any)\<close> and read \<open>err.message\<close>:
  on \<open>undefined\<close> or \<open>null\<close> that property access itself throws a TypeError; on any other
  value it yields the property, which a template literal renders as text.
  \<open>ThrownValue m s\<close> is a value whose \<open>message\<close> property is \<open>m\<close> and whose string
  conversion is \<open>s\<close>.
\<close>

datatype js_message = MsgUndefined | MsgNull | MsgText jsstring

datatype js_thrown = ThrownUndefined | ThrownNull | ThrownValue js_message jsstring

definition type_error :: "string \<Rightarrow> js_thrown" where
  "type_error what =
     ThrownValue
       (MsgText (js ''Cannot read properties of '' @ js what @ js '' (reading 'message')''))
       (js ''TypeError: Cannot read properties of '' @ js what @ js '' (reading 'message')'')"

definition get_message :: "js_thrown \<Rightarrow> js_thrown + js_message" where
  "get_message v =
     (case v of
        ThrownUndefined \<Rightarrow> Inl (type_error ''undefined'')
      | ThrownNull \<Rightarrow> Inl (type_error ''null'')
      | ThrownValue m s \<Rightarrow> Inr m)"

definition to_string :: "js_thrown \<Rightarrow> jsstring" where
  "to_string v =
     (case v of
        ThrownUndefined \<Rightarrow> js ''undefined''
      | ThrownNull \<Rightarrow> js ''null''
      | ThrownValue m s \<Rightarrow> s)"

definition render_message :: "js_message \<Rightarrow> jsstring" where
  "render_message m =
     (case m of MsgUndefined \<Rightarrow> js ''undefined'' | MsgNull \<Rightarrow> js ''null'' | MsgText s \<Rightarrow> s)"

text \<open>\<open>wasiError.message ?? wasiError\<close> inside a template literal.\<close>

definition message_or_self :: "js_thrown \<Rightarrow> js_thrown + jsstring" where
  "message_or_self v =
     (case get_message v of
        Inl e \<Rightarrow> Inl e
      | Inr (MsgText s) \<Rightarrow> Inr s
      | Inr _ \<Rightarrow> Inr (to_string v))"

section \<open>The host: file system, WASI and the sandbox binary\<close>

text \<open>
  The temporary directories, the files in them and the open descriptors.  Descriptors
  are handed out from a counter, so two open files never share one.
\<close>

record world =
  dirs :: "jsstring list"
  files :: "(jsstring \<times> jsstring) list"
  fds :: "(nat \<times> jsstring) list"
  next_fd :: nat

text \<open>
  What the host does at each call of one invocation: an operation either succeeds or
  throws the given value.  Every call site of the source has its own entry:
  \<open>mkdtemp\<close> (with the random characters it picks), the two \<open>open\<close> calls,
  \<open>new WASI\<close>, \<open>WebAssembly.instantiate\<close> with \<open>wasi.getImportObject\<close>, the two
  \<open>close\<close> and the two \<open>readFile\<close> calls after the run, and the \<open>close\<close>, \<open>close\<close>
  and \<open>rm\<close> calls of the \<open>finally\<close> block.  Logging is not modelled.
\<close>

record host =
  process_env :: "(jsstring \<times> jsstring) list"
  os_tmpdir :: jsstring
  mkdtemp_result :: "js_thrown + jsstring"
  open_stdout_fault :: "js_thrown option"
  open_stderr_fault :: "js_thrown option"
  wasi_ctor_fault :: "js_thrown option"
  instantiate_fault :: "js_thrown option"
  close_stdout_fault :: "js_thrown option"
  close_stderr_fault :: "js_thrown option"
  read_stdout_fault :: "js_thrown option"
  read_stderr_fault :: "js_thrown option"
  cleanup_close_stdout_fault :: "js_thrown option"
  cleanup_close_stderr_fault :: "js_thrown option"
  rm_fault :: "js_thrown option"

text \<open>\<open>path.join\<close> of two segments that need no normalisation.\<close>

definition path_join :: "jsstring \<Rightarrow> jsstring \<Rightarrow> jsstring" where
  "path_join a b = a @ js ''/'' @ b"

text \<open>\<open>mkdtemp(prefix)\<close> appends the random characters chosen by the host to the prefix.\<close>

definition fs_mkdtemp ::
  "js_thrown + jsstring \<Rightarrow> jsstring \<Rightarrow> world \<Rightarrow> (js_thrown + jsstring) \<times> world" where
  "fs_mkdtemp res pfx w =
     (case res of
        Inl e \<Rightarrow> (Inl e, w)
      | Inr rnd \<Rightarrow> (Inr (pfx @ rnd), w\<lparr>dirs := (pfx @ rnd) # dirs w\<rparr>))"

text \<open>\<open>open(path, "w")\<close> creates or truncates the file and returns a new descriptor.\<close>

definition fs_open ::
  "js_thrown option \<Rightarrow> jsstring \<Rightarrow> world \<Rightarrow> (js_thrown + nat) \<times> world" where
  "fs_open fault path w =
     (case fault of
        Some e \<Rightarrow> (Inl e, w)
      | None \<Rightarrow>
          (Inr (next_fd w),
           w\<lparr>files := (path, []) # filter (\<lambda>(p, c). p \<noteq> path) (files w),
             fds := (next_fd w, path) # fds w,
             next_fd := Suc (next_fd w)\<rparr>))"

definition fs_write :: "nat \<Rightarrow> jsstring \<Rightarrow> world \<Rightarrow> world" where
  "fs_write fd txt w =
     (case map_of (fds w) fd of
        None \<Rightarrow> w
      | Some path \<Rightarrow>
          w\<lparr>files := map (\<lambda>(p, c). if p = path then (p, c @ txt) else (p, c)) (files w)\<rparr>)"

definition fs_close :: "js_thrown option \<Rightarrow> nat \<Rightarrow> world \<Rightarrow> js_thrown option \<times> world" where
  "fs_close fault fd w =
     (case fault of
        Some e \<Rightarrow> (Some e, w)
      | None \<Rightarrow> (None, w\<lparr>fds := filter (\<lambda>(f, p). f \<noteq> fd) (fds w)\<rparr>))"

definition enoent :: js_thrown where
  "enoent =
     ThrownValue (MsgText (js ''ENOENT: no such file or directory''))
       (js ''Error: ENOENT: no such file or directory'')"

definition fs_readFile :: "js_thrown option \<Rightarrow> jsstring \<Rightarrow> world \<Rightarrow> js_thrown + jsstring" where
  "fs_readFile fault path w =
     (case fault of
        Some e \<Rightarrow> Inl e
      | None \<Rightarrow> (case map_of (files w) path of None \<Rightarrow> Inl enoent | Some c \<Rightarrow> Inr c))"

text \<open>\<open>rm(dir, {recursive: true, force: true})\<close>: a missing directory is not an error.\<close>

definition fs_rm :: "js_thrown option \<Rightarrow> jsstring \<Rightarrow> world \<Rightarrow> js_thrown option \<times> world" where
  "fs_rm fault dir w =
     (case fault of
        Some e \<Rightarrow> (Some e, w)
      | None \<Rightarrow>
          (None,
           w\<lparr>dirs := filter (\<lambda>d. d \<noteq> dir) (dirs w),
             files := filter (\<lambda>(p, c). \<not> prefix (dir @ js ''/'') p) (files w)\<rparr>))"

text \<open>
  The options object given to \<open>new WASI\<close>.  \<open>None\<close> is a property that is \<open>undefined\<close>
  or absent; node:wasi then uses descriptor 1 for stdout and 2 for stderr.
\<close>

record wasi_options =
  wasi_version :: jsstring
  wasi_args :: "jsstring list"
  wasi_env :: "(jsstring \<times> jsstring) list"
  wasi_stdin :: nat
  wasi_stdout :: "nat option"
  wasi_stderr :: "nat option"
  wasi_returnOnExit :: "bool option"

text \<open>
  The compiled sandbox binary is opaque: one run of it, given its arguments and its
  environment, writes some text to its standard output and standard error and then either
  exits with a status or makes \<open>wasi.start\<close> throw.  The text written before a throw is
  the partial output of that run.
\<close>

record behaviour =
  out_text :: jsstring
  err_text :: jsstring
  finish :: "js_thrown + int"

type_synonym wasm_module = "jsstring list \<Rightarrow> (jsstring \<times> jsstring) list \<Rightarrow> behaviour"

text \<open>
  \<open>wasi.start(instance)\<close>.  The text goes to the descriptors named by the options.  With
  \<open>returnOnExit\<close> in effect (set in part\_000; the default of node:wasi in src/server.ts)
  the call returns the exit status of the program.
\<close>

definition wasi_start ::
  "wasm_module \<Rightarrow> wasi_options \<Rightarrow> world \<Rightarrow> (js_thrown + int) \<times> world" where
  "wasi_start m opts w =
     (let b = m (wasi_args opts) (wasi_env opts);
          w1 = fs_write (case wasi_stdout opts of None \<Rightarrow> 1 | Some fd \<Rightarrow> fd) (out_text b) w;
          w2 = fs_write (case wasi_stderr opts of None \<Rightarrow> 2 | Some fd \<Rightarrow> fd) (err_text b) w1
      in (finish b, w2))"

section \<open>The sandbox invoker with temporary capture files (src/unnamed/part\_000)\<close>

record run_result =
  stdout :: jsstring
  stderr :: jsstring
  error :: "jsstring option"

text \<open>The variables of \<open>runQuickJsInSandbox\<close> that its \<open>finally\<close> block reads.\<close>

record locals =
  tempDir :: "jsstring option"
  stdoutHandle :: "nat option"
  stderrHandle :: "nat option"

definition wasi_options_part0 :: "host \<Rightarrow> jsstring \<Rightarrow> nat \<Rightarrow> nat \<Rightarrow> wasi_options" where
  "wasi_options_part0 h jsCode stdoutFd stderrFd =
     \<lparr>wasi_version = js ''preview1'',
      wasi_args = [js ''qjs'', js ''-e'', jsCode],
      wasi_env = process_env h,
      wasi_stdin = 0,
      wasi_stdout = Some stdoutFd,
      wasi_stderr = Some stderrFd,
      wasi_returnOnExit = Some True\<rparr>"

text \<open>Lines 121 to 139: close both handles, read both files, build the result.\<close>

definition read_back ::
  "host \<Rightarrow> int \<Rightarrow> jsstring \<Rightarrow> nat \<Rightarrow> nat \<Rightarrow> world \<Rightarrow> (js_thrown + run_result) \<times> locals \<times> world"
  where
  "read_back h exitCode d stdoutFd stderrFd w =
     (case fs_close (close_stdout_fault h) stdoutFd w of
        (Some e, w1) \<Rightarrow>
          (Inl e, \<lparr>tempDir = Some d, stdoutHandle = Some stdoutFd, stderrHandle = Some stderrFd\<rparr>, w1)
      | (None, w1) \<Rightarrow>
          (case fs_close (close_stderr_fault h) stderrFd w1 of
             (Some e, w2) \<Rightarrow>
               (Inl e, \<lparr>tempDir = Some d, stdoutHandle = None, stderrHandle = Some stderrFd\<rparr>, w2)
           | (None, w2) \<Rightarrow>
               (let l = \<lparr>tempDir = Some d, stdoutHandle = None, stderrHandle = None\<rparr> in
                case fs_readFile (read_stdout_fault h) (path_join d (js ''stdout.log'')) w2 of
                  Inl e \<Rightarrow> (Inl e, l, w2)
                | Inr capturedStdout \<Rightarrow>
                    (case fs_readFile (read_stderr_fault h) (path_join d (js ''stderr.log'')) w2 of
                       Inl e \<Rightarrow> (Inl e, l, w2)
                     | Inr capturedStderr \<Rightarrow>
                         (Inr \<lparr>stdout = capturedStdout,
                               stderr = capturedStderr,
                               error =
                                 (if exitCode \<noteq> 0
                                  then Some (js ''QuickJS process exited with code '' @ dec_int exitCode
                                             @ js ''. Check stderr for details.'')
                                  else None)\<rparr>,
                          l, w2)))))"

text \<open>
  Lines 93 to 139: construct the WASI object, instantiate, start.  The \<open>catch\<close> around
  \<open>wasi.start\<close> returns at once, without reading the capture files.
\<close>

definition start_and_capture ::
  "host \<Rightarrow> wasm_module \<Rightarrow> jsstring \<Rightarrow> jsstring \<Rightarrow> nat \<Rightarrow> nat \<Rightarrow> world
     \<Rightarrow> (js_thrown + run_result) \<times> locals \<times> world" where
  "start_and_capture h m jsCode d stdoutFd stderrFd w =
     (let l = \<lparr>tempDir = Some d, stdoutHandle = Some stdoutFd, stderrHandle = Some stderrFd\<rparr> in
      case wasi_ctor_fault h of
        Some e \<Rightarrow> (Inl e, l, w)
      | None \<Rightarrow>
          (case instantiate_fault h of
             Some e \<Rightarrow> (Inl e, l, w)
           | None \<Rightarrow>
               (case wasi_start m (wasi_options_part0 h jsCode stdoutFd stderrFd) w of
                  (Inl wasiError, w1) \<Rightarrow>
                    (case message_or_self wasiError of
                       Inl e \<Rightarrow> (Inl e, l, w1)
                     | Inr msg \<Rightarrow>
                         (Inr \<lparr>stdout = [],
                               stderr = js ''WASI start error: '' @ msg,
                               error = Some (js ''Sandbox execution failed during start: '' @ msg)\<rparr>,
                          l, w1))
                | (Inr exitCode, w1) \<Rightarrow> read_back h exitCode d stdoutFd stderrFd w1)))"

text \<open>Lines 84 to 139: the whole \<open>try\<close> block.\<close>

definition try_block ::
  "host \<Rightarrow> wasm_module \<Rightarrow> jsstring \<Rightarrow> world \<Rightarrow> (js_thrown + run_result) \<times> locals \<times> world" where
  "try_block h m jsCode w =
     (case fs_mkdtemp (mkdtemp_result h) (path_join (os_tmpdir h) (js ''quickjs-wasi-'')) w of
        (Inl e, w1) \<Rightarrow> (Inl e, \<lparr>tempDir = None, stdoutHandle = None, stderrHandle = None\<rparr>, w1)
      | (Inr d, w1) \<Rightarrow>
          (case fs_open (open_stdout_fault h) (path_join d (js ''stdout.log'')) w1 of
             (Inl e, w2) \<Rightarrow>
               (Inl e, \<lparr>tempDir = Some d, stdoutHandle = None, stderrHandle = None\<rparr>, w2)
           | (Inr stdoutFd, w2) \<Rightarrow>
               (case fs_open (open_stderr_fault h) (path_join d (js ''stderr.log'')) w2 of
                  (Inl e, w3) \<Rightarrow>
                    (Inl e, \<lparr>tempDir = Some d, stdoutHandle = Some stdoutFd, stderrHandle = None\<rparr>, w3)
                | (Inr stderrFd, w3) \<Rightarrow> start_and_capture h m jsCode d stdoutFd stderrFd w3)))"

text \<open>Lines 140 to 145: the \<open>catch\<close> block.  Reading \<open>err.message\<close> can itself throw.\<close>

definition catch_block :: "js_thrown \<Rightarrow> js_thrown + run_result" where
  "catch_block err =
     (case get_message err of
        Inl e \<Rightarrow> Inl e
      | Inr msg \<Rightarrow>
          Inr \<lparr>stdout = [], stderr = [],
               error = Some (js ''Sandbox setup or execution failed: '' @ render_message msg)\<rparr>)"

text \<open>
  Lines 146 to 155: the \<open>finally\<close> block.  The first call that throws ends the inner
  \<open>try\<close>; the error is dropped and the later calls are not made.
\<close>

definition finally_block :: "host \<Rightarrow> locals \<Rightarrow> world \<Rightarrow> world" where
  "finally_block h l w =
     (case (case stdoutHandle l of
              None \<Rightarrow> (None, w)
            | Some fd \<Rightarrow> fs_close (cleanup_close_stdout_fault h) fd w) of
        (Some cleanupError, w1) \<Rightarrow> w1
      | (None, w1) \<Rightarrow>
          (case (case stderrHandle l of
                   None \<Rightarrow> (None, w1)
                 | Some fd \<Rightarrow> fs_close (cleanup_close_stderr_fault h) fd w1) of
             (Some cleanupError, w2) \<Rightarrow> w2
           | (None, w2) \<Rightarrow>
               (if truthy_opt (tempDir l) then snd (fs_rm (rm_fault h) (the (tempDir l)) w2)
                else w2)))"

definition runQuickJsInSandbox_part0 ::
  "host \<Rightarrow> wasm_module \<Rightarrow> jsstring \<Rightarrow> world \<Rightarrow> (js_thrown + run_result) \<times> world" where
  "runQuickJsInSandbox_part0 h m jsCode w =
     (case try_block h m jsCode w of
        (r, l, w1) \<Rightarrow>
          ((case r of Inl err \<Rightarrow> catch_block err | Inr res \<Rightarrow> Inr res), finally_block h l w1))"

section \<open>The tool handler (src/unnamed/part\_000)\<close>

record content_item =
  item_type :: jsstring
  item_text :: jsstring

record tool_result =
  content :: "content_item list"
  isError :: bool

definition combinedOutput_part0 :: "run_result \<Rightarrow> jsstring" where
  "combinedOutput_part0 result =
     (let combinedOutput = [];
          combinedOutput =
            (if truthy (stdout result)
             then combinedOutput @ js ''--- stdout ---\<newline>'' @ stdout result
                  @ js ''\<newline>--- stdout ---\<newline>''
             else combinedOutput);
          combinedOutput =
            (if truthy (stderr result)
             then combinedOutput @ js ''--- stderr ---\<newline>'' @ stderr result
                  @ js ''\<newline>--- stderr ---\<newline>''
             else combinedOutput);
          combinedOutput =
            (if truthy_opt (error result)
             then combinedOutput @ js ''--- Execution Error ---\<newline>'' @ the (error result)
                  @ js ''\<newline>--- Execution Error ---\<newline>''
             else combinedOutput)
      in if \<not> truthy (stdout result) \<and> \<not> truthy (stderr result) \<and> \<not> truthy_opt (error result)
         then js ''--- Execution Success (No Output, Exit Code 0) ---''
         else combinedOutput)"

text \<open>\<open>Boolean(!!result.error || (result.stderr && result.stderr.trim().length > 0))\<close>\<close>

definition isError_of :: "run_result \<Rightarrow> bool" where
  "isError_of r \<longleftrightarrow> truthy_opt (error r) \<or> (truthy (stderr r) \<and> length (trim (stderr r)) > 0)"

definition handler_catch :: "js_thrown \<Rightarrow> js_thrown + tool_result" where
  "handler_catch toolError =
     (case get_message toolError of
        Inl e \<Rightarrow> Inl e
      | Inr msg \<Rightarrow>
          Inr \<lparr>content =
                 [\<lparr>item_type = js ''text'',
                   item_text = js ''Server error during tool execution: '' @ render_message msg\<rparr>],
               isError = True\<rparr>)"

definition tool_handler_part0 ::
  "host \<Rightarrow> wasm_module \<Rightarrow> jsstring \<Rightarrow> world \<Rightarrow> (js_thrown + tool_result) \<times> world" where
  "tool_handler_part0 h m javascript_code w =
     (case runQuickJsInSandbox_part0 h m javascript_code w of
        (Inl toolError, w1) \<Rightarrow> (handler_catch toolError, w1)
      | (Inr result, w1) \<Rightarrow>
          (Inr \<lparr>content =
                  [\<lparr>item_type = js ''text'', item_text = trim (combinedOutput_part0 result)\<rparr>],
                isError = isError_of result\<rparr>,
           w1))"

section \<open>The stub invoker and its handler (src/server.ts)\<close>

text \<open>
  In src/server.ts the variables \<open>stdoutFd\<close> and \<open>stderrFd\<close> are declared and never
  assigned before \<open>new WASI\<close>; no temporary file exists.  \<open>returnOnExit\<close> is not given.
\<close>

definition wasi_options_server ::
  "host \<Rightarrow> jsstring \<Rightarrow> nat option \<Rightarrow> nat option \<Rightarrow> wasi_options" where
  "wasi_options_server h jsCode stdoutFd stderrFd =
     \<lparr>wasi_version = js ''preview1'',
      wasi_args = [js ''qjs'', js ''-e'', jsCode],
      wasi_env = process_env h,
      wasi_stdin = 0,
      wasi_stdout = stdoutFd,
      wasi_stderr = stderrFd,
      wasi_returnOnExit = None\<rparr>"

text \<open>
  Lines 53 to 94.  The value returned by \<open>wasi.start\<close> is dropped; the inner \<open>catch\<close>
  only logs \<open>wasiError.message\<close>, and reading that property of \<open>undefined\<close> or \<open>null\<close>
  throws into the outer \<open>catch\<close>.
\<close>

definition try_block_server ::
  "host \<Rightarrow> wasm_module \<Rightarrow> jsstring \<Rightarrow> world \<Rightarrow> (js_thrown + run_result) \<times> world" where
  "try_block_server h m jsCode w =
     (let stdoutFd = None; stderrFd = None in
      case wasi_ctor_fault h of
        Some e \<Rightarrow> (Inl e, w)
      | None \<Rightarrow>
          (case instantiate_fault h of
             Some e \<Rightarrow> (Inl e, w)
           | None \<Rightarrow>
               (case wasi_start m (wasi_options_server h jsCode stdoutFd stderrFd) w of
                  (Inl wasiError, w1) \<Rightarrow>
                    (case get_message wasiError of
                       Inl e \<Rightarrow> (Inl e, w1)
                     | Inr msg \<Rightarrow> (Inr \<lparr>stdout = [], stderr = [], error = None\<rparr>, w1))
                | (Inr exitCode, w1) \<Rightarrow> (Inr \<lparr>stdout = [], stderr = [], error = None\<rparr>, w1))))"

definition catch_block_server :: "js_thrown \<Rightarrow> js_thrown + run_result" where
  "catch_block_server err =
     (let capturedStderrOnError = [] in
      case get_message err of
        Inl e \<Rightarrow> Inl e
      | Inr msg \<Rightarrow>
          Inr \<lparr>stdout = [], stderr = capturedStderrOnError,
               error = Some (js ''Sandbox execution failed: '' @ render_message msg)\<rparr>)"

definition runQuickJsInSandbox_server ::
  "host \<Rightarrow> wasm_module \<Rightarrow> jsstring \<Rightarrow> world \<Rightarrow> (js_thrown + run_result) \<times> world" where
  "runQuickJsInSandbox_server h m jsCode w =
     (case try_block_server h m jsCode w of
        (Inl err, w1) \<Rightarrow> (catch_block_server err, w1)
      | (Inr res, w1) \<Rightarrow> (Inr res, w1))"

definition combinedOutput_server :: "run_result \<Rightarrow> jsstring" where
  "combinedOutput_server result =
     (let combinedOutput = [];
          combinedOutput =
            (if truthy (stdout result)
             then combinedOutput @ js ''--- stdout ---\<newline>'' @ stdout result @ js ''\<newline>''
             else combinedOutput);
          combinedOutput =
            (if truthy (stderr result)
             then combinedOutput @ js ''--- stderr ---\<newline>'' @ stderr result @ js ''\<newline>''
             else combinedOutput);
          combinedOutput =
            (if truthy_opt (error result)
             then combinedOutput @ js ''--- Execution Error ---\<newline>'' @ the (error result)
                  @ js ''\<newline>''
             else combinedOutput)
      in if \<not> truthy (stdout result) \<and> \<not> truthy (stderr result) \<and> \<not> truthy_opt (error result)
         then js ''--- Execution Success (No Output) ---''
         else combinedOutput)"

text \<open>
  Lines 132 to 186.  The handler computes \<open>isError\<close> (lines 157 and 158) for its log
  message only; the object it returns carries the literal \<open>isError: false\<close> (line 171).
\<close>

definition tool_handler_server ::
  "host \<Rightarrow> wasm_module \<Rightarrow> jsstring \<Rightarrow> world \<Rightarrow> (js_thrown + tool_result) \<times> world" where
  "tool_handler_server h m javascript_code w =
     (case runQuickJsInSandbox_server h m javascript_code w of
        (Inl toolError, w1) \<Rightarrow> (handler_catch toolError, w1)
      | (Inr result, w1) \<Rightarrow>
          (let isError = isError_of result in
           (Inr \<lparr>content =
                   [\<lparr>item_type = js ''text'', item_text = trim (combinedOutput_server result)\<rparr>],
                 isError = False\<rparr>,
            w1)))"

section \<open>Start-up\<close>

text \<open>
  What the host does at start-up: reading qjs-wasi.wasm, compiling its bytes, setting up
  the protocol server and connecting the transport.
\<close>

record startup =
  wasm_file :: "js_thrown + 8 word list"
  compile_result :: "8 word list \<Rightarrow> js_thrown + wasm_module"
  server_setup_fault :: "js_thrown option"
  connect_fault :: "js_thrown option"

text \<open>
  \<open>process.exit\<close> does not return: \<open>Inl code\<close> is the process ending with that code.
  Both source files have the same \<open>loadAndCompileWasm\<close> apart from logging.
\<close>

definition loadAndCompileWasm :: "startup \<Rightarrow> int + wasm_module" where
  "loadAndCompileWasm s =
     (case wasm_file s of
        Inl e \<Rightarrow> Inl 1
      | Inr wasmBuffer \<Rightarrow>
          (case compile_result s wasmBuffer of
             Inl e \<Rightarrow> Inl 1
           | Inr compiledWasmModule \<Rightarrow> Inr compiledWasmModule))"

text \<open>
  The process after \<open>startServer().catch(...)\<close>: ended with an exit code, or connected to
  the transport with the tool registered over the compiled module.  An error while the
  server object is set up or the transport is connected rejects \<open>startServer\<close>, and the
  \<open>catch\<close> at the end of the file exits with 1.  part\_000 also exits with 1 when the
  value returned by \<open>loadAndCompileWasm\<close> is falsy; a compiled module is an object, so
  that test never fires.
\<close>

datatype process = Exited int | Serving wasm_module

definition startServer :: "startup \<Rightarrow> process" where
  "startServer s =
     (case loadAndCompileWasm s of
        Inl code \<Rightarrow> Exited code
      | Inr compiledWasmModule \<Rightarrow>
          (case server_setup_fault s of
             Some err \<Rightarrow> Exited 1
           | None \<Rightarrow>
               (case connect_fault s of
                  Some err \<Rightarrow> Exited 1
                | None \<Rightarrow> Serving compiledWasmModule)))"

text \<open>A request reaches the handler only in a process that is serving.\<close>

definition accept_request_part0 ::
  "process \<Rightarrow> host \<Rightarrow> jsstring \<Rightarrow> world \<Rightarrow> ((js_thrown + tool_result) \<times> world) option" where
  "accept_request_part0 p h javascript_code w =
     (case p of
        Exited code \<Rightarrow> None
      | Serving compiledWasmModule \<Rightarrow> Some (tool_handler_part0 h compiledWasmModule javascript_code w))"

definition accept_request_server ::
  "process \<Rightarrow> host \<Rightarrow> jsstring \<Rightarrow> world \<Rightarrow> ((js_thrown + tool_result) \<times> world) option" where
  "accept_request_server p h javascript_code w =
     (case p of
        Exited code \<Rightarrow> None
      | Serving compiledWasmModule \<Rightarrow> Some (tool_handler_server h compiledWasmModule javascript_code w))"

section \<open>Notions used to state the properties\<close>

text \<open>What one run of the sandbox binary does for this code on this host.\<close>

definition sandbox_run :: "host \<Rightarrow> wasm_module \<Rightarrow> jsstring \<Rightarrow> behaviour" where
  "sandbox_run h m jsCode = m [js ''qjs'', js ''-e'', jsCode] (process_env h)"

text \<open>
  The host lets the invoker reach \<open>wasi.start\<close>: the temporary directory and both
  capture files are created, the WASI object is built and the module is instantiated.
\<close>

definition setup_ok :: "host \<Rightarrow> bool" where
  "setup_ok h \<longleftrightarrow>
     (case mkdtemp_result h of Inl e \<Rightarrow> False | Inr rnd \<Rightarrow> True)
     \<and> open_stdout_fault h = None \<and> open_stderr_fault h = None
     \<and> wasi_ctor_fault h = None \<and> instantiate_fault h = None"

text \<open>The host also lets the invoker close both handles and read both files back.\<close>

definition capture_ok :: "host \<Rightarrow> bool" where
  "capture_ok h \<longleftrightarrow>
     setup_ok h
     \<and> close_stdout_fault h = None \<and> close_stderr_fault h = None
     \<and> read_stdout_fault h = None \<and> read_stderr_fault h = None"

text \<open>No call of the \<open>finally\<close> block throws.\<close>

definition cleanup_ok :: "host \<Rightarrow> bool" where
  "cleanup_ok h \<longleftrightarrow>
     cleanup_close_stdout_fault h = None \<and> cleanup_close_stderr_fault h = None
     \<and> rm_fault h = None"

text \<open>
  Nothing is allocated in \<open>w'\<close> that was not already allocated in \<open>w\<close>: no directory,
  no file and no open descriptor.
\<close>

definition nothing_left :: "world \<Rightarrow> world \<Rightarrow> bool" where
  "nothing_left w w' \<longleftrightarrow>
     set (dirs w') \<subseteq> set (dirs w) \<and> set (files w') \<subseteq> set (files w)
     \<and> set (fds w') \<subseteq> set (fds w)"

text \<open>
  Bookkeeping for the proof that nothing is left behind: a path lies in the temporary
  directory; the descriptors held by the variables of the invoker; and the invariant of
  the \<open>try\<close> block, that whatever \<open>w1\<close> has beyond \<open>w\<close> is the directory \<open>D\<close>, a file
  in it, or a descriptor of \<open>F\<close> opened on such a file.
\<close>

definition under :: "jsstring option \<Rightarrow> jsstring \<Rightarrow> bool" where
  "under D p \<longleftrightarrow> (case D of None \<Rightarrow> False | Some d \<Rightarrow> prefix (d @ js ''/'') p)"

definition held :: "world \<Rightarrow> jsstring option \<Rightarrow> nat set \<Rightarrow> world \<Rightarrow> bool" where
  "held w D F w1 \<longleftrightarrow>
     set (dirs w1) \<subseteq> set (dirs w) \<union> set_option D
     \<and> set (files w1) \<subseteq> set (files w) \<union> {(p, c). under D p}
     \<and> set (fds w1) \<subseteq> set (fds w) \<union> {(f, p). f \<in> F}
     \<and> (\<forall>f \<in> F. \<forall>p. map_of (fds w1) f = Some p \<longrightarrow> under D p)"

definition handles :: "locals \<Rightarrow> nat set" where
  "handles l = set_option (stdoutHandle l) \<union> set_option (stderrHandle l)"

section \<open>Sample inputs\<close>

text \<open>A host on which no operation fails, and a world with nothing allocated.\<close>

definition quiet_host :: host where
  "quiet_host =
     \<lparr>process_env = [(js ''HOME'', js ''/root'')],
      os_tmpdir = js ''/tmp'',
      mkdtemp_result = Inr (js ''a1B2c3''),
      open_stdout_fault = None, open_stderr_fault = None,
      wasi_ctor_fault = None, instantiate_fault = None,
      close_stdout_fault = None, close_stderr_fault = None,
      read_stdout_fault = None, read_stderr_fault = None,
      cleanup_close_stdout_fault = None, cleanup_close_stderr_fault = None,
      rm_fault = None\<rparr>"

definition io_error :: js_thrown where
  "io_error = ThrownValue (MsgText (js ''EIO: i/o error'')) (js ''Error: EIO: i/o error'')"

definition empty_world :: world where
  "empty_world = \<lparr>dirs = [], files = [], fds = [], next_fd = 3\<rparr>"

text \<open>
  Sample sandbox binaries: one run prints the given texts and ends as given; the last
  one prints the value of the environment variable HOME.
\<close>

definition script :: "string \<Rightarrow> string \<Rightarrow> js_thrown + int \<Rightarrow> wasm_module" where
  "script out err fin = (\<lambda>args env. \<lparr>out_text = js out, err_text = js err, finish = fin\<rparr>)"

definition print_home :: wasm_module where
  "print_home =
     (\<lambda>args env.
        \<lparr>out_text = (case map_of env (js ''HOME'') of None \<Rightarrow> [] | Some v \<Rightarrow> v),
         err_text = [], finish = Inr 0\<rparr>)"

text \<open>A trap of the sandboxed program, as \<open>wasi.start\<close> throws it.\<close>

definition trap :: js_thrown where
  "trap = ThrownValue (MsgText (js ''unreachable'')) (js ''RuntimeError: unreachable'')"

text \<open>A start-up where qjs-wasi.wasm is missing, and one where it loads and compiles.\<close>

definition missing_artifact :: startup where
  "missing_artifact =
     \<lparr>wasm_file = Inl enoent, compile_result = (\<lambda>bytes. Inr print_home),
      server_setup_fault = None, connect_fault = None\<rparr>"

definition good_startup :: startup where
  "good_startup =
     \<lparr>wasm_file = Inr [0x00, 0x61, 0x73, 0x6D], compile_result = (\<lambda>bytes. Inr print_home),
      server_setup_fault = None, connect_fault = None\<rparr>"

section \<open>Strings\<close>

lemma js_Nil_iff: "js s = [] \<longleftrightarrow> s = []"
  by (simp add: js_def)

lemma dropWhile_space_keep: "s \<noteq> [] \<Longrightarrow> \<not> is_js_space (hd s) \<Longrightarrow> dropWhile is_js_space s = s"
  by (cases s) simp_all

lemma trim_keep:
  assumes "s \<noteq> []" "\<not> is_js_space (hd s)" "\<not> is_js_space (last s)"
  shows "trim s = s"
proof -
  have "rev s \<noteq> []" "hd (rev s) = last s"
    using assms(1) by (simp_all add: hd_rev)
  then have "dropWhile is_js_space (rev s) = rev s"
    using assms(3) by (simp add: dropWhile_space_keep)
  then show ?thesis
    using assms(1,2) by (simp add: trim_def dropWhile_space_keep)
qed

lemma newline_is_space: "is_js_space 0xA"
  by (simp add: is_js_space_def)

lemma dash_not_space: "\<not> is_js_space 0x2D"
  by (simp add: is_js_space_def)

lemma trim_newline:
  assumes "s \<noteq> []" "\<not> is_js_space (hd s)" "\<not> is_js_space (last s)"
  shows "trim (s @ [0xA]) = s"
proof -
  have "dropWhile is_js_space (s @ [0xA]) = s @ [0xA]"
    using assms(1,2) by (simp add: dropWhile_space_keep)
  moreover have "dropWhile is_js_space (rev (s @ [0xA])) = dropWhile is_js_space (rev s)"
    by (simp add: newline_is_space)
  moreover have "dropWhile is_js_space (rev s) = rev s"
    using assms(1,3) by (simp add: dropWhile_space_keep hd_rev)
  ultimately show ?thesis
    by (simp add: trim_def)
qed

lemma trim_nonempty: "trim s \<noteq> [] \<Longrightarrow> s \<noteq> []"
  by (auto simp: trim_def)


lemma trim_dashed:
  assumes "s \<noteq> []" "hd s = 0x2D" "last s = 0xA" "butlast s \<noteq> []" "last (butlast s) = 0x2D"
  shows "trim s = butlast s"
proof -
  have s: "s = butlast s @ [0xA]"
    using assms(1,3) by (metis append_butlast_last_id)
  have "hd (butlast s) = hd s"
    using assms(4) s by (metis hd_append2)
  then have "trim (butlast s @ [0xA]) = butlast s"
    using assms by (intro trim_newline) (simp_all add: dash_not_space)
  then show ?thesis
    using s by simp
qed

lemma hd_js: "s \<noteq> [] \<Longrightarrow> hd (js s) = of_nat (of_char (hd s))"
  by (cases s) (simp_all add: js_def)

lemma last_js: "s \<noteq> [] \<Longrightarrow> last (js s) = of_nat (of_char (last s))"
  by (simp add: js_def last_map)

lemma butlast_js: "butlast (js s) = js (butlast s)"
  by (simp add: js_def map_butlast)

lemma combinedOutput_part0_unfold:
  "combinedOutput_part0 r =
     (if \<not> truthy (stdout r) \<and> \<not> truthy (stderr r) \<and> \<not> truthy_opt (error r)
      then js ''--- Execution Success (No Output, Exit Code 0) ---''
      else
        (if truthy (stdout r)
         then js ''--- stdout ---\<newline>'' @ stdout r @ js ''\<newline>--- stdout ---\<newline>'' else [])
        @ (if truthy (stderr r)
           then js ''--- stderr ---\<newline>'' @ stderr r @ js ''\<newline>--- stderr ---\<newline>'' else [])
        @ (if truthy_opt (error r)
           then js ''--- Execution Error ---\<newline>'' @ the (error r)
                @ js ''\<newline>--- Execution Error ---\<newline>''
           else []))"
  by (simp add: combinedOutput_part0_def Let_def)

lemma combinedOutput_server_unfold:
  "combinedOutput_server r =
     (if \<not> truthy (stdout r) \<and> \<not> truthy (stderr r) \<and> \<not> truthy_opt (error r)
      then js ''--- Execution Success (No Output) ---''
      else
        (if truthy (stdout r) then js ''--- stdout ---\<newline>'' @ stdout r @ js ''\<newline>'' else [])
        @ (if truthy (stderr r) then js ''--- stderr ---\<newline>'' @ stderr r @ js ''\<newline>'' else [])
        @ (if truthy_opt (error r)
           then js ''--- Execution Error ---\<newline>'' @ the (error r) @ js ''\<newline>''
           else []))"
  by (simp add: combinedOutput_server_def Let_def)

lemma combinedOutput_part0_dashed:
  assumes "truthy (stdout r) \<or> truthy (stderr r) \<or> truthy_opt (error r)"
  shows "trim (combinedOutput_part0 r) = butlast (combinedOutput_part0 r)"
proof (rule trim_dashed)
  show "combinedOutput_part0 r \<noteq> []"
    using assms by (auto simp: combinedOutput_part0_unfold js_Nil_iff)
  show "hd (combinedOutput_part0 r) = 0x2D"
    using assms by (auto simp: combinedOutput_part0_unfold js_Nil_iff hd_append hd_js)
  show "last (combinedOutput_part0 r) = 0xA"
    using assms by (auto simp: combinedOutput_part0_unfold js_Nil_iff last_js)
  show "butlast (combinedOutput_part0 r) \<noteq> []"
    using assms by (auto simp: combinedOutput_part0_unfold js_Nil_iff butlast_append butlast_js)
  show "last (butlast (combinedOutput_part0 r)) = 0x2D"
    using assms by (auto simp: combinedOutput_part0_unfold js_Nil_iff butlast_append butlast_js last_js)
qed

section \<open>The invoker of part\_000\<close>

lemma log_paths_distinct: "path_join d (js ''stdout.log'') \<noteq> path_join d (js ''stderr.log'')"
  by (simp add: path_join_def js_def)

lemma try_block_capture:
  assumes "capture_ok h" and "finish (sandbox_run h m jsCode) = Inr n"
  shows "fst (try_block h m jsCode w) =
           Inr \<lparr>stdout = out_text (sandbox_run h m jsCode),
                stderr = err_text (sandbox_run h m jsCode),
                error = (if n \<noteq> 0
                         then Some (js ''QuickJS process exited with code '' @ dec_int n
                                    @ js ''. Check stderr for details.'')
                         else None)\<rparr>"
proof -
  obtain rnd where rnd: "mkdtemp_result h = Inr rnd"
    using assms(1) by (auto simp: capture_ok_def setup_ok_def split: sum.splits)
  note d = log_paths_distinct log_paths_distinct [symmetric]
  show ?thesis
    using assms rnd d
    by (simp add: capture_ok_def setup_ok_def sandbox_run_def try_block_def start_and_capture_def read_back_def
        fs_mkdtemp_def fs_open_def fs_write_def fs_close_def fs_readFile_def wasi_start_def
        wasi_options_part0_def Let_def)
qed

lemma get_message_Inl: "get_message v = Inl e \<Longrightarrow> \<exists>t u. e = ThrownValue (MsgText t) u"
  by (auto simp: get_message_def type_error_def split: js_thrown.splits)

lemma catch_block_Inl: "catch_block err = Inl e \<Longrightarrow> \<exists>t u. e = ThrownValue (MsgText t) u"
  by (auto simp: catch_block_def split: sum.splits dest: get_message_Inl)

lemma run_part0_throws:
  assumes "fst (runQuickJsInSandbox_part0 h m jsCode w) = Inl e"
  shows "\<exists>t u. e = ThrownValue (MsgText t) u"
  using assms
  by (auto simp: runQuickJsInSandbox_part0_def split: prod.splits sum.splits dest: catch_block_Inl)

lemma run_part0_no_error:
  assumes "fst (runQuickJsInSandbox_part0 h m jsCode w) = Inr r" and "error r = None"
  shows "finish (sandbox_run h m jsCode) = Inr 0
         \<and> stdout r = out_text (sandbox_run h m jsCode)
         \<and> stderr r = err_text (sandbox_run h m jsCode)"
proof -
  obtain x l w1 where tb: "try_block h m jsCode w = (x, l, w1)"
    by (cases "try_block h m jsCode w") auto
  have "x = Inr r"
    using assms tb
    by (auto simp: runQuickJsInSandbox_part0_def catch_block_def split: sum.splits)
  note d = log_paths_distinct log_paths_distinct [symmetric]
  from tb \<open>x = Inr r\<close> assms(2) d show ?thesis
    by (auto simp: sandbox_run_def try_block_def start_and_capture_def read_back_def
        fs_mkdtemp_def fs_open_def fs_write_def fs_close_def fs_readFile_def wasi_start_def
        wasi_options_part0_def Let_def
        split: sum.splits option.splits if_splits)
qed

section \<open>The handler of part\_000\<close>

lemma tool_handler_part0_fst:
  "fst (tool_handler_part0 h m c w) =
     (case fst (runQuickJsInSandbox_part0 h m c w) of
        Inl toolError \<Rightarrow> handler_catch toolError
      | Inr result \<Rightarrow>
          Inr \<lparr>content =
                 [\<lparr>item_type = js ''text'', item_text = trim (combinedOutput_part0 result)\<rparr>],
               isError = isError_of result\<rparr>)"
  by (simp add: tool_handler_part0_def split: prod.splits sum.splits)

lemma butlast_append_ne: "ys \<noteq> [] \<Longrightarrow> butlast (xs @ ys) = xs @ butlast ys"
  by (simp add: butlast_append)

lemma stderr_in_text_part0:
  assumes "stderr r \<noteq> []"
  shows "sublist (stderr r) (trim (combinedOutput_part0 r))"
proof -
  let ?A = "if truthy (stdout r)
            then js ''--- stdout ---\<newline>'' @ stdout r @ js ''\<newline>--- stdout ---\<newline>'' else []"
  let ?B = "if truthy_opt (error r)
            then js ''--- Execution Error ---\<newline>'' @ the (error r)
                 @ js ''\<newline>--- Execution Error ---\<newline>''
            else []"
  have co: "combinedOutput_part0 r =
              (?A @ js ''--- stderr ---\<newline>'') @ stderr r @ (js ''\<newline>--- stderr ---\<newline>'' @ ?B)"
    using assms by (simp add: combinedOutput_part0_unfold truthy_def)
  have ne: "js ''\<newline>--- stderr ---\<newline>'' @ ?B \<noteq> []"
    by (simp add: js_Nil_iff)
  have "trim (combinedOutput_part0 r) = butlast (combinedOutput_part0 r)"
    using assms by (intro combinedOutput_part0_dashed) (simp add: truthy_def)
  also have "\<dots> = (?A @ js ''--- stderr ---\<newline>'') @ stderr r
                    @ butlast (js ''\<newline>--- stderr ---\<newline>'' @ ?B)"
    unfolding co using ne by (simp add: butlast_append_ne del: append_assoc)
  finally show ?thesis
    unfolding sublist_def by blast
qed

lemma trim_nonblank_isError: "trim (stderr r) \<noteq> [] \<Longrightarrow> isError_of r"
  by (auto simp: isError_of_def truthy_def dest: trim_nonempty)

text \<open>
  Claim C1.  Whenever the invoker returns an outcome without an error (which it does only
  for exit status 0, see \<open>run_part0_no_error\<close>) whose captured stderr is not blank, the
  handler returns \<open>isError = true\<close> and a text that contains the captured stderr.
\<close>

theorem stderr_on_exit_0_is_error:
  assumes "fst (runQuickJsInSandbox_part0 h m javascript_code w) = Inr r"
    and "error r = None"
    and "trim (stderr r) \<noteq> []"
  shows "\<exists>t. fst (tool_handler_part0 h m javascript_code w) =
               Inr \<lparr>content = [\<lparr>item_type = js ''text'', item_text = t\<rparr>], isError = True\<rparr>
             \<and> sublist (stderr r) t"
proof -
  have "stderr r \<noteq> []"
    using assms(3) by (rule trim_nonempty)
  then have "sublist (stderr r) (trim (combinedOutput_part0 r))"
    by (rule stderr_in_text_part0)
  moreover have "isError_of r"
    using assms(3) by (rule trim_nonblank_isError)
  ultimately show ?thesis
    using assms(1) by (simp add: tool_handler_part0_fst)
qed

lemma quiet_capture_ok: "capture_ok quiet_host"
  by (simp add: capture_ok_def setup_ok_def quiet_host_def)

lemma run_part0_fst:
  "fst (runQuickJsInSandbox_part0 h m jsCode w) =
     (case fst (try_block h m jsCode w) of Inl err \<Rightarrow> catch_block err | Inr res \<Rightarrow> Inr res)"
  by (simp add: runQuickJsInSandbox_part0_def split: prod.splits)

lemma run_part0_capture:
  assumes "capture_ok h" and "finish (sandbox_run h m jsCode) = Inr n"
  shows "fst (runQuickJsInSandbox_part0 h m jsCode w) =
           Inr \<lparr>stdout = out_text (sandbox_run h m jsCode),
                stderr = err_text (sandbox_run h m jsCode),
                error = (if n \<noteq> 0
                         then Some (js ''QuickJS process exited with code '' @ dec_int n
                                    @ js ''. Check stderr for details.'')
                         else None)\<rparr>"
  using try_block_capture [OF assms, of w] by (simp add: run_part0_fst)

theorem stderr_on_exit_0_is_error_witness:
  "fst (runQuickJsInSandbox_part0 quiet_host (script ''hi\<newline>'' ''deprecated\<newline>'' (Inr 0))
          (js ''console.log(1)'') empty_world)
     = Inr \<lparr>stdout = js ''hi\<newline>'', stderr = js ''deprecated\<newline>'', error = None\<rparr>
   \<and> trim (js ''deprecated\<newline>'') \<noteq> []
   \<and> (\<exists>t. fst (tool_handler_part0 quiet_host (script ''hi\<newline>'' ''deprecated\<newline>'' (Inr 0))
                (js ''console.log(1)'') empty_world)
            = Inr \<lparr>content = [\<lparr>item_type = js ''text'', item_text = t\<rparr>], isError = True\<rparr>
          \<and> sublist (js ''deprecated\<newline>'') t)"
proof -
  let ?m = "script ''hi\<newline>'' ''deprecated\<newline>'' (Inr 0)"
  let ?r = "\<lparr>stdout = js ''hi\<newline>'', stderr = js ''deprecated\<newline>'', error = None\<rparr>"
  have run: "fst (runQuickJsInSandbox_part0 quiet_host ?m (js ''console.log(1)'') empty_world) = Inr ?r"
    using run_part0_capture [OF quiet_capture_ok, of ?m "js ''console.log(1)''" 0 empty_world]
    by (simp add: sandbox_run_def script_def)
  have blank: "trim (js ''deprecated\<newline>'') \<noteq> []"
    by (simp add: trim_def js_def is_js_space_def)
  show ?thesis
    using run blank stderr_on_exit_0_is_error [OF run] by simp
qed

lemma trim_marker_part0:
  "trim (js ''--- Execution Success (No Output, Exit Code 0) ---'')
     = js ''--- Execution Success (No Output, Exit Code 0) ---''"
  by (rule trim_keep) (simp_all add: js_Nil_iff hd_js last_js is_js_space_def)

lemma trim_marker_server:
  "trim (js ''--- Execution Success (No Output) ---'') = js ''--- Execution Success (No Output) ---''"
  by (rule trim_keep) (simp_all add: js_Nil_iff hd_js last_js is_js_space_def)

lemma stdout_block_text:
  assumes "stdout r \<noteq> []" "stderr r = []" "error r = None"
  shows "trim (combinedOutput_part0 r) = js ''--- stdout ---\<newline>'' @ stdout r @ js ''\<newline>--- stdout ---''"
proof -
  have co: "combinedOutput_part0 r
              = (js ''--- stdout ---\<newline>'' @ stdout r) @ js ''\<newline>--- stdout ---\<newline>''"
    using assms by (simp add: combinedOutput_part0_unfold truthy_def truthy_opt_def)
  have "trim (combinedOutput_part0 r) = butlast (combinedOutput_part0 r)"
    using assms(1) by (intro combinedOutput_part0_dashed) (simp add: truthy_def)
  also have "\<dots> = (js ''--- stdout ---\<newline>'' @ stdout r) @ butlast (js ''\<newline>--- stdout ---\<newline>'')"
    unfolding co by (rule butlast_append_ne) (simp add: js_Nil_iff)
  finally show ?thesis
    by (simp add: butlast_js)
qed

lemma no_output_text_part0:
  assumes "stdout r = []" "stderr r = []" "error r = None"
  shows "trim (combinedOutput_part0 r) = js ''--- Execution Success (No Output, Exit Code 0) ---''"
  using assms by (simp add: combinedOutput_part0_unfold truthy_def truthy_opt_def trim_marker_part0)

lemma no_output_text_server:
  assumes "stdout r = []" "stderr r = []" "error r = None"
  shows "trim (combinedOutput_server r) = js ''--- Execution Success (No Output) ---''"
  using assms by (simp add: combinedOutput_server_unfold truthy_def truthy_opt_def trim_marker_server)

lemma tool_handler_server_fst:
  "fst (tool_handler_server h m c w) =
     (case fst (runQuickJsInSandbox_server h m c w) of
        Inl toolError \<Rightarrow> handler_catch toolError
      | Inr result \<Rightarrow>
          Inr \<lparr>content =
                 [\<lparr>item_type = js ''text'', item_text = trim (combinedOutput_server result)\<rparr>],
               isError = False\<rparr>)"
  by (simp add: tool_handler_server_def split: prod.splits sum.splits)

text \<open>
  Claim C3, as amended.  When the outcome has no error (exit status 0) and an empty
  stderr, the handler returns \<open>isError = false\<close>, and its text is the captured stdout
  between two \<open>--- stdout ---\<close> delimiter lines, or the no-output marker when stdout is
  empty as well.  The text is not the bare stdout.
\<close>

theorem stdout_only_is_wrapped_stdout:
  assumes "fst (runQuickJsInSandbox_part0 h m javascript_code w) = Inr r"
    and "error r = None"
    and "stderr r = []"
  shows "fst (tool_handler_part0 h m javascript_code w) =
           Inr \<lparr>content =
                  [\<lparr>item_type = js ''text'',
                    item_text =
                      (if stdout r = [] then js ''--- Execution Success (No Output, Exit Code 0) ---''
                       else js ''--- stdout ---\<newline>'' @ stdout r @ js ''\<newline>--- stdout ---'')\<rparr>],
                isError = False\<rparr>"
proof -
  have "\<not> isError_of r"
    using assms(2,3) by (simp add: isError_of_def truthy_def truthy_opt_def)
  then show ?thesis
    using assms by (simp add: tool_handler_part0_fst stdout_block_text no_output_text_part0)
qed

theorem stdout_only_is_wrapped_stdout_witness:
  "fst (runQuickJsInSandbox_part0 quiet_host (script ''hi\<newline>'' [] (Inr 0))
          (js ''console.log('hi')'') empty_world)
     = Inr \<lparr>stdout = js ''hi\<newline>'', stderr = [], error = None\<rparr>
   \<and> fst (tool_handler_part0 quiet_host (script ''hi\<newline>'' [] (Inr 0))
            (js ''console.log('hi')'') empty_world)
     = Inr \<lparr>content =
              [\<lparr>item_type = js ''text'',
                item_text = js ''--- stdout ---\<newline>hi\<newline>\<newline>--- stdout ---''\<rparr>],
            isError = False\<rparr>"
proof -
  let ?m = "script ''hi\<newline>'' [] (Inr 0)"
  let ?r = "\<lparr>stdout = js ''hi\<newline>'', stderr = [], error = None\<rparr>"
  have run: "fst (runQuickJsInSandbox_part0 quiet_host ?m (js ''console.log('hi')'') empty_world) = Inr ?r"
    using run_part0_capture [OF quiet_capture_ok, of ?m "js ''console.log('hi')''" 0 empty_world]
    by (simp add: sandbox_run_def script_def js_def)
  show ?thesis
    using run stdout_only_is_wrapped_stdout [OF run] by (simp add: js_def)
qed

text \<open>
  The script prints \<open>hi\<close>: the captured stdout is \<open>hi\<close> with its line end, and the
  handler does not return that text as its content.
\<close>

theorem content_is_not_bare_stdout:
  "fst (runQuickJsInSandbox_part0 quiet_host (script ''hi\<newline>'' [] (Inr 0))
          (js ''console.log('hi')'') empty_world)
     = Inr \<lparr>stdout = js ''hi\<newline>'', stderr = [], error = None\<rparr>
   \<and> fst (tool_handler_part0 quiet_host (script ''hi\<newline>'' [] (Inr 0))
            (js ''console.log('hi')'') empty_world)
     \<noteq> Inr \<lparr>content = [\<lparr>item_type = js ''text'', item_text = js ''hi\<newline>''\<rparr>],
              isError = False\<rparr>"
proof -
  let ?m = "script ''hi\<newline>'' [] (Inr 0)"
  let ?r = "\<lparr>stdout = js ''hi\<newline>'', stderr = [], error = None\<rparr>"
  have run: "fst (runQuickJsInSandbox_part0 quiet_host ?m (js ''console.log('hi')'') empty_world) = Inr ?r"
    using run_part0_capture [OF quiet_capture_ok, of ?m "js ''console.log('hi')''" 0 empty_world]
    by (simp add: sandbox_run_def script_def js_def)
  have "trim (combinedOutput_part0 ?r) = js ''--- stdout ---\<newline>'' @ js ''hi\<newline>'' @ js ''\<newline>--- stdout ---''"
    using stdout_block_text [of ?r] by (simp add: js_Nil_iff)
  then have "trim (combinedOutput_part0 ?r) \<noteq> js ''hi\<newline>''"
    by (simp add: js_def)
  then show ?thesis
    using run by (simp add: tool_handler_part0_fst)
qed

text \<open>
  Claim C6.  An outcome with exit status 0 (no error) and nothing captured on either
  stream gives the fixed no-output marker and \<open>isError = false\<close>, in both source files
  (each has its own marker text).
\<close>

theorem no_output_gives_marker:
  "(fst (runQuickJsInSandbox_part0 h m javascript_code w) = Inr r
      \<and> error r = None \<and> stdout r = [] \<and> stderr r = []
    \<longrightarrow> fst (tool_handler_part0 h m javascript_code w) =
          Inr \<lparr>content =
                 [\<lparr>item_type = js ''text'',
                   item_text = js ''--- Execution Success (No Output, Exit Code 0) ---''\<rparr>],
               isError = False\<rparr>)
   \<and> (fst (runQuickJsInSandbox_server h m javascript_code w) = Inr r'
        \<and> error r' = None \<and> stdout r' = [] \<and> stderr r' = []
      \<longrightarrow> fst (tool_handler_server h m javascript_code w) =
            Inr \<lparr>content =
                   [\<lparr>item_type = js ''text'',
                     item_text = js ''--- Execution Success (No Output) ---''\<rparr>],
                 isError = False\<rparr>)"
  by (simp add: tool_handler_part0_fst tool_handler_server_fst no_output_text_part0
      no_output_text_server isError_of_def truthy_def truthy_opt_def)

section \<open>The stub of src/server.ts\<close>

lemma run_server_fst:
  "fst (runQuickJsInSandbox_server h m jsCode w) =
     (case fst (try_block_server h m jsCode w) of
        Inl err \<Rightarrow> catch_block_server err
      | Inr res \<Rightarrow> Inr res)"
  by (simp add: runQuickJsInSandbox_server_def split: prod.splits sum.splits)

lemma try_block_server_Inr:
  assumes "fst (try_block_server h m jsCode w) = Inr r"
  shows "r = \<lparr>stdout = [], stderr = [], error = None\<rparr>
         \<and> snd (try_block_server h m jsCode w)
             = fs_write 2 (err_text (sandbox_run h m jsCode))
                 (fs_write 1 (out_text (sandbox_run h m jsCode)) w)"
  using assms
  by (auto simp: try_block_server_def wasi_start_def wasi_options_server_def sandbox_run_def Let_def
      split: option.splits sum.splits)

lemma try_block_server_exit:
  assumes "wasi_ctor_fault h = None" "instantiate_fault h = None"
    and "finish (sandbox_run h m jsCode) = Inr n"
  shows "fst (try_block_server h m jsCode w) = Inr \<lparr>stdout = [], stderr = [], error = None\<rparr>"
  using assms
  by (simp add: try_block_server_def wasi_start_def wasi_options_server_def sandbox_run_def Let_def)

lemma quiet_server_run:
  "fst (try_block_server quiet_host (script out err (Inr n)) c w)
     = Inr \<lparr>stdout = [], stderr = [], error = None\<rparr>"
  by (rule try_block_server_exit) (simp_all add: quiet_host_def sandbox_run_def script_def)

text \<open>
  Claim C9.  In src/server.ts, whenever the \<open>try\<close> block returns, the invoker returns
  empty stdout and stderr and no error, whatever the script wrote: its output went to
  descriptors 1 and 2 of the host, the defaults for the undefined \<open>stdout\<close> and
  \<open>stderr\<close> options.  The handler then answers with the no-output marker.
\<close>

theorem server_ts_captures_nothing:
  assumes "fst (try_block_server h m jsCode w) = Inr r"
  shows "fst (runQuickJsInSandbox_server h m jsCode w) = Inr \<lparr>stdout = [], stderr = [], error = None\<rparr>
         \<and> snd (runQuickJsInSandbox_server h m jsCode w)
             = fs_write 2 (err_text (sandbox_run h m jsCode))
                 (fs_write 1 (out_text (sandbox_run h m jsCode)) w)
         \<and> fst (tool_handler_server h m jsCode w) =
             Inr \<lparr>content =
                    [\<lparr>item_type = js ''text'',
                      item_text = js ''--- Execution Success (No Output) ---''\<rparr>],
                  isError = False\<rparr>"
proof -
  note tb = try_block_server_Inr [OF assms]
  have run: "fst (runQuickJsInSandbox_server h m jsCode w)
               = Inr \<lparr>stdout = [], stderr = [], error = None\<rparr>"
    using assms tb by (simp add: run_server_fst)
  have "snd (runQuickJsInSandbox_server h m jsCode w) = snd (try_block_server h m jsCode w)"
    by (simp add: runQuickJsInSandbox_server_def split: prod.splits sum.splits)
  with run tb show ?thesis
    by (simp add: tool_handler_server_fst no_output_text_server)
qed

theorem server_ts_captures_nothing_witness:
  "fst (try_block_server quiet_host (script ''hi\<newline>'' ''oops\<newline>'' (Inr 0))
         (js ''console.log('hi')'') empty_world)
     = Inr \<lparr>stdout = [], stderr = [], error = None\<rparr>
   \<and> fst (runQuickJsInSandbox_server quiet_host (script ''hi\<newline>'' ''oops\<newline>'' (Inr 0))
           (js ''console.log('hi')'') empty_world)
     = Inr \<lparr>stdout = [], stderr = [], error = None\<rparr>
   \<and> fst (tool_handler_server quiet_host (script ''hi\<newline>'' ''oops\<newline>'' (Inr 0))
           (js ''console.log('hi')'') empty_world)
     = Inr \<lparr>content =
              [\<lparr>item_type = js ''text'', item_text = js ''--- Execution Success (No Output) ---''\<rparr>],
            isError = False\<rparr>"
  using quiet_server_run [of "''hi\<newline>''" "''oops\<newline>''" 0 "js ''console.log('hi')''" empty_world]
    server_ts_captures_nothing [OF quiet_server_run
      [of "''hi\<newline>''" "''oops\<newline>''" 0 "js ''console.log('hi')''" empty_world]]
  by simp

text \<open>
  Claim C2 fails in src/server.ts.  A script that throws makes the sandbox exit with
  status 1; \<open>wasi.start\<close> returns that status, the invoker drops it, and the handler
  answers with the no-output marker and \<open>isError = false\<close>.  The implementation in
  part\_000 names the exit code (\<open>part0_names_exit_code\<close>).
\<close>

theorem server_ts_drops_exit_code:
  "fst (tool_handler_server quiet_host (script [] ''Error: boom\<newline>'' (Inr 1))
          (js ''throw new Error('boom')'') empty_world)
     = Inr \<lparr>content =
              [\<lparr>item_type = js ''text'', item_text = js ''--- Execution Success (No Output) ---''\<rparr>],
            isError = False\<rparr>"
proof -
  have "fst (runQuickJsInSandbox_server quiet_host (script [] ''Error: boom\<newline>'' (Inr 1))
          (js ''throw new Error('boom')'') empty_world)
          = Inr \<lparr>stdout = [], stderr = [], error = None\<rparr>"
    by (simp add: run_server_fst quiet_server_run)
  then show ?thesis
    by (simp add: tool_handler_server_fst no_output_text_server)
qed

lemma error_in_text_part0:
  assumes "error r = Some e" "e \<noteq> []"
  shows "trim (combinedOutput_part0 r)
           = ((if truthy (stdout r)
               then js ''--- stdout ---\<newline>'' @ stdout r @ js ''\<newline>--- stdout ---\<newline>'' else [])
              @ (if truthy (stderr r)
                 then js ''--- stderr ---\<newline>'' @ stderr r @ js ''\<newline>--- stderr ---\<newline>'' else [])
              @ js ''--- Execution Error ---\<newline>'') @ e @ js ''\<newline>--- Execution Error ---''"
    (is "_ = ?P @ e @ _")
proof -
  have co: "combinedOutput_part0 r = (?P @ e) @ js ''\<newline>--- Execution Error ---\<newline>''"
    using assms by (simp add: combinedOutput_part0_unfold truthy_def truthy_opt_def)
  have "trim (combinedOutput_part0 r) = butlast (combinedOutput_part0 r)"
    using assms by (intro combinedOutput_part0_dashed) (simp add: truthy_def truthy_opt_def)
  also have "\<dots> = (?P @ e) @ butlast (js ''\<newline>--- Execution Error ---\<newline>'')"
    unfolding co by (rule butlast_append_ne) (simp add: js_Nil_iff)
  finally show ?thesis
    by (simp add: butlast_js)
qed

lemma part0_names_exit_code:
  assumes "capture_ok h" and "finish (sandbox_run h m javascript_code) = Inr n" and "n \<noteq> 0"
  shows "\<exists>t. fst (tool_handler_part0 h m javascript_code w) =
               Inr \<lparr>content = [\<lparr>item_type = js ''text'', item_text = t\<rparr>], isError = True\<rparr>
             \<and> sublist (js ''QuickJS process exited with code '' @ dec_int n) t"
proof -
  let ?e = "js ''QuickJS process exited with code '' @ dec_int n @ js ''. Check stderr for details.''"
  let ?r = "\<lparr>stdout = out_text (sandbox_run h m javascript_code),
             stderr = err_text (sandbox_run h m javascript_code), error = Some ?e\<rparr>"
  have run: "fst (runQuickJsInSandbox_part0 h m javascript_code w) = Inr ?r"
    using run_part0_capture [OF assms(1,2), of w] assms(3) by simp
  have ne: "?e \<noteq> []"
    by (simp add: js_Nil_iff)
  obtain P where "trim (combinedOutput_part0 ?r) = P @ ?e @ js ''\<newline>--- Execution Error ---''"
    using error_in_text_part0 [of ?r ?e, OF _ ne] by simp
  then have "trim (combinedOutput_part0 ?r)
               = P @ (js ''QuickJS process exited with code '' @ dec_int n)
                   @ (js ''. Check stderr for details.'' @ js ''\<newline>--- Execution Error ---'')"
    by simp
  then have "sublist (js ''QuickJS process exited with code '' @ dec_int n) (trim (combinedOutput_part0 ?r))"
    unfolding sublist_def by blast
  moreover have "isError_of ?r"
    using ne by (simp add: isError_of_def truthy_opt_def truthy_def)
  ultimately show ?thesis
    using run by (simp add: tool_handler_part0_fst)
qed

theorem no_output_gives_marker_witness:
  "fst (runQuickJsInSandbox_part0 quiet_host (script [] [] (Inr 0)) (js ''1 + 1'') empty_world)
     = Inr \<lparr>stdout = [], stderr = [], error = None\<rparr>
   \<and> fst (tool_handler_part0 quiet_host (script [] [] (Inr 0)) (js ''1 + 1'') empty_world)
     = Inr \<lparr>content =
              [\<lparr>item_type = js ''text'',
                item_text = js ''--- Execution Success (No Output, Exit Code 0) ---''\<rparr>],
            isError = False\<rparr>
   \<and> fst (runQuickJsInSandbox_server quiet_host (script [] [] (Inr 0)) (js ''1 + 1'') empty_world)
     = Inr \<lparr>stdout = [], stderr = [], error = None\<rparr>
   \<and> fst (tool_handler_server quiet_host (script [] [] (Inr 0)) (js ''1 + 1'') empty_world)
     = Inr \<lparr>content =
              [\<lparr>item_type = js ''text'', item_text = js ''--- Execution Success (No Output) ---''\<rparr>],
            isError = False\<rparr>"
proof -
  let ?m = "script [] [] (Inr 0)"
  let ?r = "\<lparr>stdout = [], stderr = [], error = None\<rparr> :: run_result"
  have p: "fst (runQuickJsInSandbox_part0 quiet_host ?m (js ''1 + 1'') empty_world) = Inr ?r"
    using run_part0_capture [OF quiet_capture_ok, of ?m "js ''1 + 1''" 0 empty_world]
    by (simp add: sandbox_run_def script_def js_def)
  have s: "fst (runQuickJsInSandbox_server quiet_host ?m (js ''1 + 1'') empty_world) = Inr ?r"
    by (simp add: run_server_fst quiet_server_run)
  show ?thesis
    using p s no_output_gives_marker [of quiet_host ?m "js ''1 + 1''" empty_world ?r ?r]
    by simp
qed

section \<open>An exception from wasi.start\<close>

lemma try_block_start_throws:
  assumes "setup_ok h" and "finish (sandbox_run h m jsCode) = Inl e"
  shows "fst (try_block h m jsCode w) =
           (case message_or_self e of
              Inl te \<Rightarrow> Inl te
            | Inr msg \<Rightarrow>
                Inr \<lparr>stdout = [],
                     stderr = js ''WASI start error: '' @ msg,
                     error = Some (js ''Sandbox execution failed during start: '' @ msg)\<rparr>)"
proof -
  obtain rnd where rnd: "mkdtemp_result h = Inr rnd"
    using assms(1) by (auto simp: setup_ok_def split: sum.splits)
  show ?thesis
    using assms rnd
    by (simp add: setup_ok_def sandbox_run_def try_block_def start_and_capture_def
        fs_mkdtemp_def fs_open_def wasi_start_def wasi_options_part0_def Let_def
        split: sum.splits)
qed

lemma start_error_text:
  fixes msg :: jsstring
  defines "r \<equiv> \<lparr>stdout = [], stderr = js ''WASI start error: '' @ msg,
                  error = Some (js ''Sandbox execution failed during start: '' @ msg)\<rparr>"
  shows "trim (combinedOutput_part0 r) =
           js ''--- stderr ---\<newline>'' @ js ''WASI start error: '' @ msg @ js ''\<newline>--- stderr ---\<newline>''
           @ js ''--- Execution Error ---\<newline>'' @ js ''Sandbox execution failed during start: '' @ msg
           @ js ''\<newline>--- Execution Error ---''"
  using error_in_text_part0 [of r "js ''Sandbox execution failed during start: '' @ msg"]
  by (simp add: r_def truthy_def js_Nil_iff)

lemma handler_part0_start_throws:
  assumes "setup_ok h"
    and "finish (sandbox_run h m javascript_code) = Inl e"
    and "message_or_self e = Inr msg"
  shows "fst (tool_handler_part0 h m javascript_code w) =
           Inr \<lparr>content =
                  [\<lparr>item_type = js ''text'',
                    item_text =
                      js ''--- stderr ---\<newline>'' @ js ''WASI start error: '' @ msg
                      @ js ''\<newline>--- stderr ---\<newline>''
                      @ js ''--- Execution Error ---\<newline>''
                      @ js ''Sandbox execution failed during start: '' @ msg
                      @ js ''\<newline>--- Execution Error ---''\<rparr>],
                isError = True\<rparr>"
proof -
  have "fst (runQuickJsInSandbox_part0 h m javascript_code w) =
          Inr \<lparr>stdout = [], stderr = js ''WASI start error: '' @ msg,
               error = Some (js ''Sandbox execution failed during start: '' @ msg)\<rparr>"
    using try_block_start_throws [OF assms(1,2), of w] assms(3) by (simp add: run_part0_fst)
  then show ?thesis
    by (simp add: tool_handler_part0_fst start_error_text isError_of_def truthy_opt_def truthy_def
        js_Nil_iff)
qed

lemma quiet_setup_ok: "setup_ok quiet_host"
  using quiet_capture_ok by (simp add: capture_ok_def)

text \<open>
  Claim C4 fails in part\_000.  The script writes to its stdout and stderr, then
  \<open>wasi.start\<close> throws.  The \<open>catch\<close> around \<open>wasi.start\<close> returns at once: the capture
  files are never read, and the failed tool result carries the message of the exception
  and none of the text written before it.
\<close>

theorem partial_output_is_dropped:
  "out_text (sandbox_run quiet_host
               (script ''partial output\<newline>'' ''partial diagnostics\<newline>'' (Inl trap))
               (js ''work()'')) = js ''partial output\<newline>''
   \<and> fst (tool_handler_part0 quiet_host
             (script ''partial output\<newline>'' ''partial diagnostics\<newline>'' (Inl trap))
             (js ''work()'') empty_world) =
        Inr \<lparr>content =
               [\<lparr>item_type = js ''text'',
                 item_text =
                   js ''--- stderr ---\<newline>WASI start error: unreachable\<newline>--- stderr ---\<newline>--- Execution Error ---\<newline>Sandbox execution failed during start: unreachable\<newline>--- Execution Error ---''\<rparr>],
             isError = True\<rparr>
   \<and> \<not> sublist (js ''partial output\<newline>'')
         (js ''--- stderr ---\<newline>WASI start error: unreachable\<newline>--- stderr ---\<newline>--- Execution Error ---\<newline>Sandbox execution failed during start: unreachable\<newline>--- Execution Error ---'')"
proof -
  let ?m = "script ''partial output\<newline>'' ''partial diagnostics\<newline>'' (Inl trap)"
  have o: "out_text (sandbox_run quiet_host ?m (js ''work()'')) = js ''partial output\<newline>''"
    by (simp add: sandbox_run_def script_def)
  have f: "finish (sandbox_run quiet_host ?m (js ''work()'')) = Inl trap"
    by (simp add: sandbox_run_def script_def)
  have g: "message_or_self trap = Inr (js ''unreachable'')"
    by (simp add: message_or_self_def get_message_def trap_def)
  have e: "js ''--- stderr ---\<newline>'' @ js ''WASI start error: '' @ js ''unreachable''
           @ js ''\<newline>--- stderr ---\<newline>'' @ js ''--- Execution Error ---\<newline>''
           @ js ''Sandbox execution failed during start: '' @ js ''unreachable''
           @ js ''\<newline>--- Execution Error ---''
         = js ''--- stderr ---\<newline>WASI start error: unreachable\<newline>--- stderr ---\<newline>--- Execution Error ---\<newline>Sandbox execution failed during start: unreachable\<newline>--- Execution Error ---''"
    by (simp add: js_def)
  have t: "fst (tool_handler_part0 quiet_host ?m (js ''work()'') empty_world) =
        Inr \<lparr>content =
               [\<lparr>item_type = js ''text'',
                 item_text =
                   js ''--- stderr ---\<newline>WASI start error: unreachable\<newline>--- stderr ---\<newline>--- Execution Error ---\<newline>Sandbox execution failed during start: unreachable\<newline>--- Execution Error ---''\<rparr>],
             isError = True\<rparr>"
    using handler_part0_start_throws [OF quiet_setup_ok f g, of empty_world] e by simp
  have n: "\<not> sublist (js ''partial output\<newline>'')
         (js ''--- stderr ---\<newline>WASI start error: unreachable\<newline>--- stderr ---\<newline>--- Execution Error ---\<newline>Sandbox execution failed during start: unreachable\<newline>--- Execution Error ---'')"
    by code_simp
  show ?thesis
    using o t n by simp
qed

section \<open>The handler never throws\<close>

lemma handler_catch_text:
  "handler_catch (ThrownValue (MsgText t) u) =
     Inr \<lparr>content =
            [\<lparr>item_type = js ''text'', item_text = js ''Server error during tool execution: '' @ t\<rparr>],
          isError = True\<rparr>"
  by (simp add: handler_catch_def get_message_def render_message_def)

lemma catch_block_server_Inl:
  "catch_block_server err = Inl e \<Longrightarrow> \<exists>t u. e = ThrownValue (MsgText t) u"
  by (auto simp: catch_block_server_def split: sum.splits dest: get_message_Inl)

lemma run_server_throws:
  assumes "fst (runQuickJsInSandbox_server h m jsCode w) = Inl e"
  shows "\<exists>t u. e = ThrownValue (MsgText t) u"
  using assms by (auto simp: run_server_fst split: sum.splits dest: catch_block_server_Inl)

text \<open>
  Claim C7.  The handler always returns a tool result and never throws, in both source
  files; and when the invoker throws, the result has \<open>isError = true\<close> and the text
  \<open>Server error during tool execution:\<close> followed by the message of the exception.
\<close>

theorem handler_converts_every_exception:
  "(\<exists>res. fst (tool_handler_part0 h m javascript_code w) = Inr res)
   \<and> (\<exists>res. fst (tool_handler_server h m javascript_code w) = Inr res)
   \<and> (fst (runQuickJsInSandbox_part0 h m javascript_code w) = Inl toolError
      \<longrightarrow> (\<exists>msg. fst (tool_handler_part0 h m javascript_code w) =
                   Inr \<lparr>content =
                          [\<lparr>item_type = js ''text'',
                            item_text = js ''Server error during tool execution: '' @ msg\<rparr>],
                        isError = True\<rparr>))
   \<and> (fst (runQuickJsInSandbox_server h m javascript_code w) = Inl toolError'
      \<longrightarrow> (\<exists>msg. fst (tool_handler_server h m javascript_code w) =
                   Inr \<lparr>content =
                          [\<lparr>item_type = js ''text'',
                            item_text = js ''Server error during tool execution: '' @ msg\<rparr>],
                        isError = True\<rparr>))"
proof (intro conjI impI)
  show "\<exists>res. fst (tool_handler_part0 h m javascript_code w) = Inr res"
  proof (cases "fst (runQuickJsInSandbox_part0 h m javascript_code w)")
    case (Inl e)
    then show ?thesis
      using run_part0_throws [OF Inl] by (auto simp: tool_handler_part0_fst handler_catch_text)
  next
    case (Inr r)
    then show ?thesis by (simp add: tool_handler_part0_fst)
  qed
  show "\<exists>res. fst (tool_handler_server h m javascript_code w) = Inr res"
  proof (cases "fst (runQuickJsInSandbox_server h m javascript_code w)")
    case (Inl e)
    then show ?thesis
      using run_server_throws [OF Inl] by (auto simp: tool_handler_server_fst handler_catch_text)
  next
    case (Inr r)
    then show ?thesis by (simp add: tool_handler_server_fst)
  qed
next
  assume a: "fst (runQuickJsInSandbox_part0 h m javascript_code w) = Inl toolError"
  then show "\<exists>msg. fst (tool_handler_part0 h m javascript_code w) =
                   Inr \<lparr>content =
                          [\<lparr>item_type = js ''text'',
                            item_text = js ''Server error during tool execution: '' @ msg\<rparr>],
                        isError = True\<rparr>"
    using run_part0_throws [OF a] by (auto simp: tool_handler_part0_fst handler_catch_text)
next
  assume a: "fst (runQuickJsInSandbox_server h m javascript_code w) = Inl toolError'"
  then show "\<exists>msg. fst (tool_handler_server h m javascript_code w) =
                   Inr \<lparr>content =
                          [\<lparr>item_type = js ''text'',
                            item_text = js ''Server error during tool execution: '' @ msg\<rparr>],
                        isError = True\<rparr>"
    using run_server_throws [OF a] by (auto simp: tool_handler_server_fst handler_catch_text)
qed

lemma run_part0_mkdtemp_undefined:
  "mkdtemp_result h = Inl ThrownUndefined \<Longrightarrow>
     fst (runQuickJsInSandbox_part0 h m c w) = Inl (type_error ''undefined'')"
  by (simp add: run_part0_fst try_block_def fs_mkdtemp_def catch_block_def get_message_def)

lemma run_server_ctor_null:
  "wasi_ctor_fault h = Some ThrownNull \<Longrightarrow>
     fst (runQuickJsInSandbox_server h m c w) = Inl (type_error ''null'')"
  by (simp add: run_server_fst try_block_server_def catch_block_server_def get_message_def)

theorem handler_converts_every_exception_witness:
  "fst (runQuickJsInSandbox_part0 (quiet_host\<lparr>mkdtemp_result := Inl ThrownUndefined,
                                                 wasi_ctor_fault := Some ThrownNull\<rparr>)
          (script [] [] (Inr 0)) (js ''1'') empty_world) = Inl (type_error ''undefined'')
   \<and> fst (runQuickJsInSandbox_server (quiet_host\<lparr>mkdtemp_result := Inl ThrownUndefined,
                                                   wasi_ctor_fault := Some ThrownNull\<rparr>)
          (script [] [] (Inr 0)) (js ''1'') empty_world) = Inl (type_error ''null'')
   \<and> (\<exists>msg. fst (tool_handler_part0 (quiet_host\<lparr>mkdtemp_result := Inl ThrownUndefined,
                                                  wasi_ctor_fault := Some ThrownNull\<rparr>)
                  (script [] [] (Inr 0)) (js ''1'') empty_world) =
               Inr \<lparr>content =
                      [\<lparr>item_type = js ''text'',
                        item_text = js ''Server error during tool execution: '' @ msg\<rparr>],
                    isError = True\<rparr>)
   \<and> (\<exists>msg. fst (tool_handler_server (quiet_host\<lparr>mkdtemp_result := Inl ThrownUndefined,
                                                  wasi_ctor_fault := Some ThrownNull\<rparr>)
                  (script [] [] (Inr 0)) (js ''1'') empty_world) =
               Inr \<lparr>content =
                      [\<lparr>item_type = js ''text'',
                        item_text = js ''Server error during tool execution: '' @ msg\<rparr>],
                    isError = True\<rparr>)"
proof -
  let ?h = "quiet_host\<lparr>mkdtemp_result := Inl ThrownUndefined, wasi_ctor_fault := Some ThrownNull\<rparr>"
  let ?m = "script [] [] (Inr 0)"
  have p: "fst (runQuickJsInSandbox_part0 ?h ?m (js ''1'') empty_world) = Inl (type_error ''undefined'')"
    by (rule run_part0_mkdtemp_undefined) simp
  have s: "fst (runQuickJsInSandbox_server ?h ?m (js ''1'') empty_world) = Inl (type_error ''null'')"
    by (rule run_server_ctor_null) simp
  show ?thesis
    using p s
      handler_converts_every_exception [of ?h ?m "js ''1''" empty_world
        "type_error ''undefined''" "type_error ''null''"]
    by simp
qed

section \<open>Release of the capture files\<close>

lemma tmp_prefix_nonempty: "path_join a b @ rnd \<noteq> []"
  by (simp add: path_join_def js_def)

lemma under_log: "under (Some d) (path_join d name)"
  by (simp add: under_def path_join_def)

lemma held_start: "held w None {} w"
  by (simp add: held_def)

lemma held_mkdtemp: "held w (Some d) {} (w\<lparr>dirs := d # dirs w\<rparr>)"
  by (auto simp: held_def)

lemma held_open:
  assumes "held w D F w1" and "under D path"
  shows "held w D (insert (next_fd w1) F)
           (w1\<lparr>files := (path, []) # filter (\<lambda>(p, c). p \<noteq> path) (files w1),
               fds := (next_fd w1, path) # fds w1,
               next_fd := Suc (next_fd w1)\<rparr>)"
  using assms unfolding held_def by (simp add: subset_iff) blast

lemma held_write:
  assumes "held w D F w1" and "fd \<in> F"
  shows "held w D F (fs_write fd t w1)"
proof (cases "map_of (fds w1) fd")
  case None
  then show ?thesis using assms by (simp add: fs_write_def)
next
  case (Some path)
  then have "under D path"
    using assms by (simp add: held_def)
  then show ?thesis
    using assms(1) Some unfolding held_def fs_write_def
    by (auto simp: subset_iff split: if_splits; blast)
qed

lemma map_of_filter_fd:
  "f \<noteq> a \<Longrightarrow> map_of (filter (\<lambda>(g, p). g \<noteq> a) xs) f = map_of xs f"
  by (induction xs) auto

lemma held_close:
  assumes "held w D F w1"
  shows "held w D (F - {a}) (w1\<lparr>fds := filter (\<lambda>(f, p). f \<noteq> a) (fds w1)\<rparr>)"
  using assms unfolding held_def by (simp add: subset_iff map_of_filter_fd) blast


lemma read_back_held:
  assumes "read_back h exitCode d a b w1 = (x, l, w2)" and "a \<noteq> b"
    and "held w (Some d) {a, b} w1"
  shows "held w (tempDir l) (handles l) w2 \<and> tempDir l = Some d"
proof -
  have c1: "held w (Some d) {b} (w1\<lparr>fds := filter (\<lambda>(f, p). f \<noteq> a) (fds w1)\<rparr>)"
    using held_close [OF assms(3), of a] assms(2) by (simp add: insert_Diff_if)
  have c2: "held w (Some d) {}
              (w1\<lparr>fds := filter (\<lambda>(f, p). f \<noteq> b) (filter (\<lambda>(f, p). f \<noteq> a) (fds w1))\<rparr>)"
    using held_close [OF c1, of b] by simp
  show ?thesis
    using assms(1,3) c1 c2
    by (auto simp: read_back_def fs_close_def handles_def Let_def insert_commute
        split: option.splits sum.splits)
qed


lemma start_and_capture_held:
  assumes "start_and_capture h m jsCode d a b w1 = (x, l, w2)" and "a \<noteq> b"
    and "held w (Some d) {a, b} w1"
  shows "held w (tempDir l) (handles l) w2 \<and> tempDir l = Some d"
proof -
  let ?l = "\<lparr>tempDir = Some d, stdoutHandle = Some a, stderrHandle = Some b\<rparr>"
  have hl: "handles ?l = {a, b}"
    by (auto simp: handles_def)
  let ?w = "snd (wasi_start m (wasi_options_part0 h jsCode a b) w1)"
  have w: "held w (Some d) {a, b} ?w"
    using assms(3) by (simp add: wasi_start_def wasi_options_part0_def Let_def held_write)
  show ?thesis
  proof (cases "wasi_ctor_fault h = None \<and> instantiate_fault h = None")
    case False
    then show ?thesis
      using assms(1,3) hl by (auto simp: start_and_capture_def Let_def split: option.splits)
  next
    case True
    show ?thesis
    proof (cases "fst (wasi_start m (wasi_options_part0 h jsCode a b) w1)")
      case (Inl wasiError)
      then show ?thesis
        using assms(1) True w hl
        by (auto simp: start_and_capture_def Let_def split: prod.splits sum.splits)
    next
      case (Inr exitCode)
      then have "read_back h exitCode d a b ?w = (x, l, w2)"
        using assms(1) True by (auto simp: start_and_capture_def Let_def split: prod.splits)
      then show ?thesis
        using assms(2) w by (rule read_back_held)
    qed
  qed
qed

lemma try_block_held:
  assumes "try_block h m jsCode w = (x, l, w1)"
  shows "held w (tempDir l) (handles l) w1 \<and> (\<forall>d. tempDir l = Some d \<longrightarrow> d \<noteq> [])"
proof (cases "mkdtemp_result h")
  case (Inl e)
  then show ?thesis
    using assms by (auto simp: try_block_def fs_mkdtemp_def handles_def held_start)
next
  case (Inr rnd)
  define d where "d = path_join (os_tmpdir h) (js ''quickjs-wasi-'') @ rnd"
  define wa where "wa = w\<lparr>dirs := d # dirs w\<rparr>"
  have d: "d \<noteq> []"
    unfolding d_def by (rule tmp_prefix_nonempty)
  have mk: "fs_mkdtemp (mkdtemp_result h) (path_join (os_tmpdir h) (js ''quickjs-wasi-'')) w = (Inr d, wa)"
    using Inr by (simp add: fs_mkdtemp_def d_def wa_def)
  have ha: "held w (Some d) {} wa"
    unfolding wa_def by (rule held_mkdtemp)
  show ?thesis
  proof (cases "open_stdout_fault h")
    case (Some e)
    then show ?thesis
      using assms mk ha d by (auto simp: try_block_def fs_open_def handles_def)
  next
    case None
    define a where "a = next_fd wa"
    define wb where "wb = wa\<lparr>files := (path_join d (js ''stdout.log''), [])
                                  # filter (\<lambda>(p, c). p \<noteq> path_join d (js ''stdout.log'')) (files wa),
                              fds := (next_fd wa, path_join d (js ''stdout.log'')) # fds wa,
                              next_fd := Suc (next_fd wa)\<rparr>"
    have o1: "fs_open (open_stdout_fault h) (path_join d (js ''stdout.log'')) wa = (Inr a, wb)"
      using None by (simp add: fs_open_def a_def wb_def)
    have hb: "held w (Some d) {a} wb"
      unfolding wb_def a_def using held_open [OF ha under_log] by simp
    show ?thesis
    proof (cases "open_stderr_fault h")
      case (Some e)
      then show ?thesis
        using assms mk o1 hb d by (auto simp: try_block_def fs_open_def handles_def)
    next
      case None
      define b where "b = next_fd wb"
      define wc where "wc = wb\<lparr>files := (path_join d (js ''stderr.log''), [])
                                    # filter (\<lambda>(p, c). p \<noteq> path_join d (js ''stderr.log'')) (files wb),
                                fds := (next_fd wb, path_join d (js ''stderr.log'')) # fds wb,
                                next_fd := Suc (next_fd wb)\<rparr>"
      have o2: "fs_open (open_stderr_fault h) (path_join d (js ''stderr.log'')) wb = (Inr b, wc)"
        using None by (simp add: fs_open_def b_def wc_def)
      have ab: "a \<noteq> b"
        by (simp add: a_def b_def wb_def)
      have hc: "held w (Some d) {a, b} wc"
        unfolding wc_def b_def using held_open [OF hb under_log] by (simp add: insert_commute)
      have "start_and_capture h m jsCode d a b wc = (x, l, w1)"
        using assms mk o1 o2 by (simp add: try_block_def)
      then have "held w (tempDir l) (handles l) w1 \<and> tempDir l = Some d"
        using ab hc by (rule start_and_capture_held)
      then show ?thesis
        using d by auto
    qed
  qed
qed

lemma finally_block_releases:
  assumes "cleanup_ok h" and "held w (tempDir l) (handles l) w1"
    and "\<forall>d. tempDir l = Some d \<longrightarrow> d \<noteq> []"
  shows "nothing_left w (finally_block h l w1)"
proof -
  have fds: "\<And>f p. (f, p) \<in> set (fds w1) \<Longrightarrow> (f, p) \<in> set (fds w) \<or> f \<in> handles l"
    using assms(2) by (auto simp: held_def)
  have dirs: "\<And>d. d \<in> set (dirs w1) \<Longrightarrow> d \<in> set (dirs w) \<or> tempDir l = Some d"
    using assms(2) by (auto simp: held_def)
  have files: "\<And>p c. (p, c) \<in> set (files w1) \<Longrightarrow> (p, c) \<in> set (files w) \<or> under (tempDir l) p"
    using assms(2) by (auto simp: held_def)
  show ?thesis
  proof (cases "tempDir l")
    case None
    then show ?thesis
      using assms(1) fds dirs files
      by (cases "stdoutHandle l"; cases "stderrHandle l";
          auto simp: nothing_left_def finally_block_def cleanup_ok_def fs_close_def
            truthy_opt_def handles_def under_def; blast)
  next
    case (Some d)
    then have "d \<noteq> []"
      using assms(3) by simp
    then show ?thesis
      using assms(1) fds dirs files Some
      by (cases "stdoutHandle l"; cases "stderrHandle l";
          auto simp: nothing_left_def finally_block_def cleanup_ok_def fs_close_def fs_rm_def
            truthy_opt_def truthy_def handles_def under_def; blast)
  qed
qed

lemma run_part0_snd:
  "snd (runQuickJsInSandbox_part0 h m jsCode w) =
     (case try_block h m jsCode w of (r, l, w1) \<Rightarrow> finally_block h l w1)"
  by (simp add: runQuickJsInSandbox_part0_def split: prod.splits)

lemma run_part0_nothing_left:
  assumes "cleanup_ok h"
  shows "nothing_left w (snd (runQuickJsInSandbox_part0 h m jsCode w))"
proof -
  obtain x l w1 where tb: "try_block h m jsCode w = (x, l, w1)"
    by (cases "try_block h m jsCode w") auto
  show ?thesis
    using try_block_held [OF tb] finally_block_releases [OF assms, of w l w1] tb
    by (simp add: run_part0_snd)
qed

lemma finally_block_idem:
  assumes "cleanup_ok h"
  shows "finally_block h l (finally_block h l w) = finally_block h l w"
  using assms
  by (cases "stdoutHandle l"; cases "stderrHandle l")
     (auto simp: finally_block_def cleanup_ok_def fs_close_def fs_rm_def)

text \<open>
  Claim C5, as amended.  If no call of the \<open>finally\<close> block throws, then on every exit
  path of the invoker nothing it allocated remains when it returns: no directory, no
  file and no open descriptor beyond those of the world it started in.  Running the
  \<open>finally\<close> block a second time changes nothing.
\<close>

theorem capture_released_when_cleanup_succeeds:
  assumes "cleanup_ok h"
  shows "nothing_left w (snd (runQuickJsInSandbox_part0 h m jsCode w))
         \<and> finally_block h l (finally_block h l w') = finally_block h l w'"
  using assms by (simp add: run_part0_nothing_left finally_block_idem)

lemma quiet_cleanup_ok: "cleanup_ok quiet_host"
  by (simp add: cleanup_ok_def quiet_host_def)

theorem capture_released_when_cleanup_succeeds_witness:
  "cleanup_ok quiet_host
   \<and> nothing_left empty_world
        (snd (runQuickJsInSandbox_part0 quiet_host (script ''hi\<newline>'' [] (Inr 0))
                (js ''console.log('hi')'') empty_world))
   \<and> finally_block quiet_host \<lparr>tempDir = Some (js ''/tmp/quickjs-wasi-a1B2c3''),
                                 stdoutHandle = Some 3, stderrHandle = Some 4\<rparr>
        (finally_block quiet_host \<lparr>tempDir = Some (js ''/tmp/quickjs-wasi-a1B2c3''),
                                   stdoutHandle = Some 3, stderrHandle = Some 4\<rparr> empty_world)
      = finally_block quiet_host \<lparr>tempDir = Some (js ''/tmp/quickjs-wasi-a1B2c3''),
                                   stdoutHandle = Some 3, stderrHandle = Some 4\<rparr> empty_world"
  using quiet_cleanup_ok capture_released_when_cleanup_succeeds [OF quiet_cleanup_ok]
  by simp

text \<open>
  When \<open>rm\<close> throws, the \<open>finally\<close> block drops the error: the invoker returns its
  result as on success while the temporary directory still exists.
\<close>

theorem failed_rm_leaves_temp_dir:
  "fst (runQuickJsInSandbox_part0 (quiet_host\<lparr>rm_fault := Some io_error\<rparr>)
          (script ''hi\<newline>'' [] (Inr 0)) (js ''console.log('hi')'') empty_world)
     = Inr \<lparr>stdout = js ''hi\<newline>'', stderr = [], error = None\<rparr>
   \<and> dirs (snd (runQuickJsInSandbox_part0 (quiet_host\<lparr>rm_fault := Some io_error\<rparr>)
                 (script ''hi\<newline>'' [] (Inr 0)) (js ''console.log('hi')'') empty_world))
     = [js ''/tmp/quickjs-wasi-a1B2c3'']
   \<and> \<not> nothing_left empty_world
         (snd (runQuickJsInSandbox_part0 (quiet_host\<lparr>rm_fault := Some io_error\<rparr>)
                 (script ''hi\<newline>'' [] (Inr 0)) (js ''console.log('hi')'') empty_world))"
proof -
  let ?h = "quiet_host\<lparr>rm_fault := Some io_error\<rparr>"
  let ?m = "script ''hi\<newline>'' [] (Inr 0)"
  let ?c = "js ''console.log('hi')''"
  have ok: "capture_ok ?h"
    using quiet_capture_ok by (simp add: capture_ok_def setup_ok_def)
  have r: "fst (runQuickJsInSandbox_part0 ?h ?m ?c empty_world)
             = Inr \<lparr>stdout = js ''hi\<newline>'', stderr = [], error = None\<rparr>"
    using run_part0_capture [OF ok, of ?m ?c 0 empty_world]
    by (simp add: sandbox_run_def script_def js_def)
  have d: "dirs (snd (runQuickJsInSandbox_part0 ?h ?m ?c empty_world)) = [js ''/tmp/quickjs-wasi-a1B2c3'']"
    by (simp add: run_part0_snd try_block_def start_and_capture_def read_back_def finally_block_def
        fs_mkdtemp_def fs_open_def fs_write_def fs_close_def fs_readFile_def fs_rm_def
        wasi_start_def wasi_options_part0_def Let_def truthy_opt_def truthy_def
        quiet_host_def empty_world_def script_def path_join_def js_def)
  have "\<not> nothing_left empty_world (snd (runQuickJsInSandbox_part0 ?h ?m ?c empty_world))"
    using d by (simp add: nothing_left_def empty_world_def)
  with r d show ?thesis by simp
qed

text \<open>
  Claim C8.  If reading or compiling the sandbox binary fails, the process ends with
  exit code 1 and accepts no request; and a process that serves requests holds the module
  that compiling the bytes of the file produced.
\<close>

theorem load_failure_exits_before_serving:
  "((\<exists>e. wasm_file s = Inl e) \<or> (\<exists>bytes e. wasm_file s = Inr bytes \<and> compile_result s bytes = Inl e)
      \<longrightarrow> startServer s = Exited 1
          \<and> accept_request_part0 (startServer s) h javascript_code w = None
          \<and> accept_request_server (startServer s) h javascript_code w = None)
   \<and> (startServer s = Serving compiledWasmModule
      \<longrightarrow> (\<exists>bytes. wasm_file s = Inr bytes \<and> compile_result s bytes = Inr compiledWasmModule))"
  by (auto simp: startServer_def loadAndCompileWasm_def accept_request_part0_def
      accept_request_server_def split: sum.splits option.splits)

theorem load_failure_exits_before_serving_witness:
  "(\<exists>e. wasm_file missing_artifact = Inl e)
   \<and> startServer missing_artifact = Exited 1
   \<and> accept_request_part0 (startServer missing_artifact) quiet_host (js ''1'') empty_world = None
   \<and> accept_request_server (startServer missing_artifact) quiet_host (js ''1'') empty_world = None
   \<and> startServer good_startup = Serving print_home
   \<and> (\<exists>bytes. wasm_file good_startup = Inr bytes \<and> compile_result good_startup bytes = Inr print_home)"
proof -
  have a: "\<exists>e. wasm_file missing_artifact = Inl e"
    by (simp add: missing_artifact_def)
  have b: "startServer good_startup = Serving print_home"
    by (simp add: startServer_def loadAndCompileWasm_def good_startup_def)
  have m: "startServer missing_artifact = Exited 1
           \<and> accept_request_part0 (startServer missing_artifact) quiet_host (js ''1'') empty_world = None
           \<and> accept_request_server (startServer missing_artifact) quiet_host (js ''1'') empty_world = None"
    using a load_failure_exits_before_serving
      [of missing_artifact quiet_host "js ''1''" empty_world print_home]
    by blast
  have g: "\<exists>bytes. wasm_file good_startup = Inr bytes \<and> compile_result good_startup bytes = Inr print_home"
    using b load_failure_exits_before_serving
      [of good_startup quiet_host "js ''1''" empty_world print_home]
    by blast
  show ?thesis
    using a b m g by blast
qed

text \<open>
  Claim C10.  Both source files pass \<open>process.env\<close> unchanged as the environment of the
  WASI instance, so the sandboxed program runs on the environment of the host; and the
  result of a tool call depends on it: the same code on two hosts that differ only in
  HOME gives two different results.
\<close>

theorem host_env_reaches_sandbox:
  "wasi_env (wasi_options_part0 h jsCode stdoutFd stderrFd) = process_env h
   \<and> wasi_env (wasi_options_server h jsCode stdoutOpt stderrOpt) = process_env h
   \<and> fst (wasi_start m (wasi_options_part0 h jsCode stdoutFd stderrFd) w)
       = finish (m [js ''qjs'', js ''-e'', jsCode] (process_env h))
   \<and> fst (wasi_start m (wasi_options_server h jsCode stdoutOpt stderrOpt) w)
       = finish (m [js ''qjs'', js ''-e'', jsCode] (process_env h))
   \<and> fst (tool_handler_part0 quiet_host print_home (js ''print(std.getenv('HOME'))'') empty_world)
       \<noteq> fst (tool_handler_part0 (quiet_host\<lparr>process_env := [(js ''HOME'', js ''/home/alice'')]\<rparr>)
                print_home (js ''print(std.getenv('HOME'))'') empty_world)"
proof -
  let ?c = "js ''print(std.getenv('HOME'))''"
  let ?h2 = "quiet_host\<lparr>process_env := [(js ''HOME'', js ''/home/alice'')]\<rparr>"
  have ok2: "capture_ok ?h2"
    using quiet_capture_ok by (simp add: capture_ok_def setup_ok_def)
  have r1: "fst (runQuickJsInSandbox_part0 quiet_host print_home ?c empty_world)
              = Inr \<lparr>stdout = js ''/root'', stderr = [], error = None\<rparr>"
    using run_part0_capture [OF quiet_capture_ok, of print_home ?c 0 empty_world]
    by (simp add: sandbox_run_def print_home_def quiet_host_def)
  have r2: "fst (runQuickJsInSandbox_part0 ?h2 print_home ?c empty_world)
              = Inr \<lparr>stdout = js ''/home/alice'', stderr = [], error = None\<rparr>"
    using run_part0_capture [OF ok2, of print_home ?c 0 empty_world]
    by (simp add: sandbox_run_def print_home_def)
  have t1: "trim (combinedOutput_part0 \<lparr>stdout = js ''/root'', stderr = [], error = None\<rparr>)
              = js ''--- stdout ---\<newline>'' @ js ''/root'' @ js ''\<newline>--- stdout ---''"
    using stdout_block_text [of "\<lparr>stdout = js ''/root'', stderr = [], error = None\<rparr>"]
    by (simp add: js_Nil_iff)
  have t2: "trim (combinedOutput_part0 \<lparr>stdout = js ''/home/alice'', stderr = [], error = None\<rparr>)
              = js ''--- stdout ---\<newline>'' @ js ''/home/alice'' @ js ''\<newline>--- stdout ---''"
    using stdout_block_text [of "\<lparr>stdout = js ''/home/alice'', stderr = [], error = None\<rparr>"]
    by (simp add: js_Nil_iff)
  have ne: "js ''/root'' @ js ''\<newline>--- stdout ---'' \<noteq> js ''/home/alice'' @ js ''\<newline>--- stdout ---''"
    by (simp add: js_def)
  have "fst (tool_handler_part0 quiet_host print_home ?c empty_world)
          \<noteq> fst (tool_handler_part0 ?h2 print_home ?c empty_world)"
    using r1 r2 t1 t2 ne by (simp add: tool_handler_part0_fst)
  then show ?thesis
    by (simp add: wasi_options_part0_def wasi_options_server_def wasi_start_def Let_def)
qed

end
